theory Spec2Isabelle
  imports Complex_Main
begin

section \<open>Numbers\<close>

text \<open>
  The source's \<^verbatim>\<open>number\<close> is an IEEE 754 double. A value is NaN, one of the two
  infinities, or a finite value, held as the rational it denotes. The two zeros are one
  value here: the code below divides only by a pixel ratio that it has tested to be
  non-zero, and \<^verbatim>\<open>===\<close> does not tell the zeros apart.
\<close>

datatype number = NaN | PosInfinity | NegInfinity | Fin rat

definition pow2 :: "int \<Rightarrow> rat" where
  "pow2 k = (if 0 \<le> k then 2 ^ nat k else 1 / 2 ^ nat (- k))"

fun bitLength :: "nat \<Rightarrow> nat" where
  "bitLength n = (if n = 0 then 0 else Suc (bitLength (n div 2)))"

declare bitLength.simps [simp del]

text \<open>For \<open>0 < a\<close>, the exponent \<open>k\<close> with \<open>2 ^ k \<le> a < 2 ^ (k + 1)\<close>.\<close>

definition binade :: "rat \<Rightarrow> int" where
  "binade a =
     (if 1 \<le> a then int (bitLength (nat \<lfloor>a\<rfloor>)) - 1
      else - int (bitLength (nat (\<lceil>1 / a\<rceil> - 1))))"

definition roundHalfEven :: "rat \<Rightarrow> int" where
  "roundHalfEven n =
     (let f = \<lfloor>n\<rfloor>; r = n - of_int f
      in if r < 1 / 2 then f else if 1 / 2 < r then f + 1 else if even f then f else f + 1)"

text \<open>
  Rounding of an exact result to the nearest double, ties to the even significand: 53
  significant bits in the binade of the value, the binade not below \<open>-1022\<close> (there the
  subnormal numbers share the spacing \<open>2 ^ -1074\<close>), and an infinity when the rounded
  value reaches \<open>2 ^ 1024\<close>.
\<close>

definition toDouble :: "rat \<Rightarrow> number" where
  "toDouble q =
     (if q = 0 then Fin 0
      else
        let a = \<bar>q\<bar>;
            e = max (binade a) (- 1022);
            u = pow2 (e - 52);
            m = roundHalfEven (a / u)
        in if 1023 < e \<or> (e = 1023 \<and> m = 9007199254740992)
           then (if q < 0 then NegInfinity else PosInfinity)
           else Fin (if q < 0 then - (of_int m * u) else of_int m * u))"

fun isNegative :: "number \<Rightarrow> bool" where
  "isNegative NegInfinity = True"
| "isNegative (Fin q) = (q < 0)"
| "isNegative n = False"

text \<open>
  The operators \<^verbatim>\<open>*\<close>, \<^verbatim>\<open>-\<close> and \<^verbatim>\<open>/\<close> of the source, and the literals \<^verbatim>\<open>0\<close> and
  \<^verbatim>\<open>1\<close>. On finite operands each is the exact result, rounded; the other cases are
  those of IEEE 754.
\<close>

instantiation number :: "{zero, one, times, minus, inverse}"
begin

definition zero_number :: number where
  "zero_number = Fin 0"

definition one_number :: number where
  "one_number = Fin 1"

definition times_number :: "number \<Rightarrow> number \<Rightarrow> number" where
  "times_number a b =
     (case (a, b) of
        (Fin p, Fin q) \<Rightarrow> toDouble (p * q)
      | _ \<Rightarrow>
          if a = NaN \<or> b = NaN \<or> a = Fin 0 \<or> b = Fin 0 then NaN
          else if isNegative a = isNegative b then PosInfinity
          else NegInfinity)"

definition minus_number :: "number \<Rightarrow> number \<Rightarrow> number" where
  "minus_number a b =
     (case (a, b) of
        (Fin p, Fin q) \<Rightarrow> toDouble (p - q)
      | (NaN, _) \<Rightarrow> NaN
      | (_, NaN) \<Rightarrow> NaN
      | (PosInfinity, PosInfinity) \<Rightarrow> NaN
      | (NegInfinity, NegInfinity) \<Rightarrow> NaN
      | (PosInfinity, _) \<Rightarrow> PosInfinity
      | (NegInfinity, _) \<Rightarrow> NegInfinity
      | (_, PosInfinity) \<Rightarrow> NegInfinity
      | (_, NegInfinity) \<Rightarrow> PosInfinity)"

definition divide_number :: "number \<Rightarrow> number \<Rightarrow> number" where
  "divide_number a b =
     (case (a, b) of
        (Fin p, Fin q) \<Rightarrow>
          if q = 0 then (if p = 0 then NaN else if 0 < p then PosInfinity else NegInfinity)
          else toDouble (p / q)
      | (NaN, _) \<Rightarrow> NaN
      | (_, NaN) \<Rightarrow> NaN
      | (Fin p, _) \<Rightarrow> Fin 0
      | (_, Fin q) \<Rightarrow> if isNegative a = (q < 0) then PosInfinity else NegInfinity
      | _ \<Rightarrow> NaN)"

definition inverse_number :: "number \<Rightarrow> number" where
  "inverse_number a = divide (Fin 1) a"

instance ..

end

text \<open>The values that \<^verbatim>\<open>||\<close> and \<^verbatim>\<open>if\<close> take as true: all but the zero and NaN.\<close>

definition truthy :: "number \<Rightarrow> bool" where
  "truthy n = (n \<noteq> NaN \<and> n \<noteq> Fin 0)"

section \<open>Data model (types.ts)\<close>

text \<open>
  A point holds two normalised coordinates, each a \<open>number\<close>.
\<close>

record Point =
  x :: number
  y :: number

text \<open>
  \<^verbatim>\<open>isEraser?: boolean\<close> is an optional field: \<open>None\<close> is the absent field, and the
  renderer's test \<^verbatim>\<open>if (stroke.isEraser)\<close> holds for \<open>Some True\<close> only.
\<close>

record Stroke =
  points :: "Point list"
  color :: string
  width :: number
  isEraser :: "bool option"

datatype ActiveZone = TOP | BOTTOM

datatype ToolType = pen | eraser

section \<open>The 2D drawing context\<close>

text \<open>
  The context is the part of \<^verbatim>\<open>CanvasRenderingContext2D\<close> that the program touches:
  the five properties it assigns, the current path, and the raster operations applied
  to the surface so far, oldest first. \<^verbatim>\<open>stroke()\<close> records the current path with
  the properties in force at the call; \<^verbatim>\<open>clearRect\<close> records its rectangle. What
  a recorded operation does to the surface is the subject of the section on the surface
  below.
\<close>

datatype segment = MoveTo number number | LineTo number number

datatype paint =
    Cleared number number number number
  | Stroked string string number string string "segment list"

record CanvasRenderingContext2D =
  globalCompositeOperation :: string
  strokeStyle :: string
  lineWidth :: number
  lineCap :: string
  lineJoin :: string
  path :: "segment list"
  raster :: "paint list"

definition beginPath :: "CanvasRenderingContext2D \<Rightarrow> CanvasRenderingContext2D" where
  "beginPath ctx = ctx\<lparr>path := []\<rparr>"

definition moveTo :: "number \<Rightarrow> number \<Rightarrow> CanvasRenderingContext2D \<Rightarrow> CanvasRenderingContext2D" where
  "moveTo px py ctx = ctx\<lparr>path := path ctx @ [MoveTo px py]\<rparr>"

definition lineTo :: "number \<Rightarrow> number \<Rightarrow> CanvasRenderingContext2D \<Rightarrow> CanvasRenderingContext2D" where
  "lineTo px py ctx = ctx\<lparr>path := path ctx @ [LineTo px py]\<rparr>"

definition ctx_stroke :: "CanvasRenderingContext2D \<Rightarrow> CanvasRenderingContext2D" where
  "ctx_stroke ctx =
     ctx\<lparr>raster := raster ctx @
       [Stroked (globalCompositeOperation ctx) (strokeStyle ctx) (lineWidth ctx)
          (lineCap ctx) (lineJoin ctx) (path ctx)]\<rparr>"

definition clearRect ::
  "number \<Rightarrow> number \<Rightarrow> number \<Rightarrow> number \<Rightarrow> CanvasRenderingContext2D \<Rightarrow> CanvasRenderingContext2D" where
  "clearRect rx ry rw rh ctx = ctx\<lparr>raster := raster ctx @ [Cleared rx ry rw rh]\<rparr>"

section \<open>The stroke renderer (drawUtils.ts, drawStroke)\<close>

text \<open>
  The statements of \<^verbatim>\<open>drawStroke\<close> in their order. \<open>w\<close> and \<open>h\<close> are the source's
  parameters \<^verbatim>\<open>width\<close> and \<^verbatim>\<open>height\<close>, the logical size of the surface. The read
  \<^verbatim>\<open>stroke.points[0]\<close> is behind the guard on the length; the loop over the indices
  \<open>1 ..< length\<close> is a fold over the points after the first.
\<close>

definition drawStroke ::
  "CanvasRenderingContext2D \<Rightarrow> Stroke \<Rightarrow> number \<Rightarrow> number \<Rightarrow> bool \<Rightarrow> CanvasRenderingContext2D" where
  "drawStroke ctx stroke w h isMirror =
     (if length (points stroke) < 1 then ctx
      else
        let c1 = beginPath ctx;
            c2 = c1\<lparr>lineCap := ''round''\<rparr>;
            c3 = c2\<lparr>lineJoin := ''round''\<rparr>;
            c4 = (if isEraser stroke = Some True
                  then c3\<lparr>globalCompositeOperation := ''destination-out'',
                          strokeStyle := ''rgba(0,0,0,1)''\<rparr>
                  else c3\<lparr>globalCompositeOperation := ''source-over'',
                          strokeStyle := color stroke\<rparr>);
            c5 = c4\<lparr>lineWidth := width stroke\<rparr>;
            p0 = points stroke ! 0;
            startX = x p0 * w;
            startY = (if isMirror then (1 - y p0) * h else y p0 * h);
            c6 = moveTo startX startY c5;
            c7 = (if length (points stroke) = 1 then lineTo startX startY c6
                  else fold (\<lambda>p. lineTo (x p * w)
                                (if isMirror then (1 - y p) * h else y p * h))
                         (drop 1 (points stroke)) c6);
            c8 = ctx_stroke c7
        in c8\<lparr>globalCompositeOperation := ''source-over''\<rparr>)"

section \<open>The zone component (CanvasZone.tsx)\<close>

text \<open>
  The component's properties arrive as arguments, as the source destructures them.
  The canvas element carries the size of its pixel buffer and the context that
  \<^verbatim>\<open>getContext("2d")\<close> returns, \<open>None\<close> when that is \<^verbatim>\<open>null\<close>.
\<close>

record HTMLCanvasElement =
  canvas_width :: number
  canvas_height :: number
  context2d :: "CanvasRenderingContext2D option"

definition isMirror :: "ActiveZone \<Rightarrow> ActiveZone \<Rightarrow> bool" where
  "isMirror activeZone zoneType = (activeZone \<noteq> zoneType)"

definition isActiveWritingZone :: "ActiveZone \<Rightarrow> ActiveZone \<Rightarrow> bool" where
  "isActiveWritingZone activeZone zoneType = (activeZone = zoneType)"

definition shouldShowContent :: "ActiveZone \<Rightarrow> ActiveZone \<Rightarrow> bool \<Rightarrow> bool" where
  "shouldShowContent activeZone zoneType isHidden =
     (\<not> (isActiveWritingZone activeZone zoneType \<and> isHidden))"

text \<open>
  \<^verbatim>\<open>render\<close>: \<open>canvasRef\<close> is \<^verbatim>\<open>canvasRef.current\<close>, \<open>None\<close> before the element is
  mounted; \<open>devicePixelRatio\<close> is \<^verbatim>\<open>window.devicePixelRatio\<close>, and
  \<^verbatim>\<open>window.devicePixelRatio || 1\<close> replaces a zero or a NaN by one.
\<close>

definition render ::
  "ActiveZone \<Rightarrow> ActiveZone \<Rightarrow> bool \<Rightarrow> Stroke list \<Rightarrow> Stroke option \<Rightarrow> number \<Rightarrow>
   HTMLCanvasElement option \<Rightarrow> HTMLCanvasElement option" where
  "render zoneType activeZone isHidden strokes currentStroke devicePixelRatio canvasRef =
     (case canvasRef of
        None \<Rightarrow> None
      | Some canvas \<Rightarrow>
          (case context2d canvas of
             None \<Rightarrow> Some canvas
           | Some ctx \<Rightarrow>
               let c1 = clearRect 0 0 (canvas_width canvas) (canvas_height canvas) ctx
               in if \<not> shouldShowContent activeZone zoneType isHidden
                  then Some (canvas\<lparr>context2d := Some c1\<rparr>)
                  else
                    let dpr = (if truthy devicePixelRatio then devicePixelRatio else 1);
                        logicalWidth = canvas_width canvas / dpr;
                        logicalHeight = canvas_height canvas / dpr;
                        c2 = fold (\<lambda>stroke c. drawStroke c stroke logicalWidth logicalHeight
                                     (isMirror activeZone zoneType)) strokes c1;
                        c3 = (case currentStroke of
                                None \<Rightarrow> c2
                              | Some cs \<Rightarrow> drawStroke c2 cs logicalWidth logicalHeight
                                            (isMirror activeZone zoneType))
                    in Some (canvas\<lparr>context2d := Some c3\<rparr>)))"

text \<open>
  The background image is not painted into the canvas: the component returns an
  \<^verbatim>\<open>img\<close> element under it, present when \<^verbatim>\<open>bgImage && shouldShowContent\<close>, with the
  class \<^verbatim>\<open>scale-y-[-1]\<close> when the zone is mirrored. The result is the image's source
  and whether it is flipped.
\<close>

definition backgroundLayer ::
  "ActiveZone \<Rightarrow> ActiveZone \<Rightarrow> bool \<Rightarrow> string \<Rightarrow> (string \<times> bool) option" where
  "backgroundLayer zoneType activeZone isHidden bgImage =
     (if bgImage \<noteq> [] \<and> shouldShowContent activeZone zoneType isHidden
      then Some (bgImage, isMirror activeZone zoneType) else None)"

section \<open>The session state and its handlers (App.tsx)\<close>

text \<open>
  One field for each \<^verbatim>\<open>useState\<close> of the component. \<open>pointerCapture\<close> is the
  browser's record of which zone's canvas has captured which pointer, written by
  \<^verbatim>\<open>setPointerCapture\<close> and \<^verbatim>\<open>releasePointerCapture\<close>.
\<close>

record PointerEvent =
  pointerType :: string
  buttons :: nat
  pointerId :: nat

record AppState =
  strokes :: "Stroke list"
  currentStroke :: "Stroke option"
  currentTool :: ToolType
  penColor :: string
  penWidth :: number
  eraserWidth :: number
  showSettings :: bool
  showAbout :: bool
  bgImage :: string
  activeZone :: ActiveZone
  hideActiveZone :: bool
  showLabels :: bool
  pointerCapture :: "nat \<rightharpoonup> ActiveZone"

text \<open>The initial values of the state; \<open>defaultImage\<close> is \<^verbatim>\<open>VITE_DEFAULT_IMAGE_PATH || ""\<close>.\<close>

definition initialState :: "string \<Rightarrow> AppState" where
  "initialState defaultImage =
     \<lparr>strokes = [], currentStroke = None, currentTool = pen, penColor = ''#000000'',
      penWidth = Fin 4, eraserWidth = Fin 20, showSettings = False, showAbout = False,
      bgImage = defaultImage, activeZone = BOTTOM, hideActiveZone = False,
      showLabels = True, pointerCapture = Map.empty\<rparr>"

text \<open>
  A handler is a function of the component's last render: the state variables it names
  are the values of that render, whatever has been set since. Each handler below takes
  those values as \<open>cl\<close>, the state its closure captured, and maps the state \<open>st\<close> that
  its updates are applied to, to the state after them. An assignment
  \<^verbatim>\<open>setX(v)\<close> stores a value computed from \<open>cl\<close>; an updater \<^verbatim>\<open>setX(prev => ...)\<close>
  computes from \<open>st\<close>. \<open>target\<close> is the zone of \<^verbatim>\<open>e.currentTarget\<close>, the canvas the
  event fired on.
\<close>

definition handlePointerDown ::
  "AppState \<Rightarrow> ActiveZone \<Rightarrow> PointerEvent \<Rightarrow> Point \<Rightarrow> AppState \<Rightarrow> AppState" where
  "handlePointerDown cl target e point st =
     (if pointerType e = ''mouse'' \<and> buttons e \<noteq> 1 then st
      else
        let newStroke =
              \<lparr>points = [point],
               color = penColor cl,
               width = (if currentTool cl = eraser then eraserWidth cl else penWidth cl),
               isEraser = Some (currentTool cl = eraser)\<rparr>
        in st\<lparr>pointerCapture := (pointerCapture st)(pointerId e \<mapsto> target),
              currentStroke := Some newStroke\<rparr>)"

definition handlePointerMove ::
  "AppState \<Rightarrow> PointerEvent \<Rightarrow> Point \<Rightarrow> AppState \<Rightarrow> AppState" where
  "handlePointerMove cl e point st =
     (case currentStroke cl of
        None \<Rightarrow> st
      | Some cs \<Rightarrow>
          if pointerType e = ''mouse'' \<and> buttons e \<noteq> 1
          then st\<lparr>strokes := strokes st @ [cs], currentStroke := None\<rparr>
          else st\<lparr>currentStroke :=
                    (case currentStroke st of
                       None \<Rightarrow> None
                     | Some prev \<Rightarrow> Some (prev\<lparr>points := points prev @ [point]\<rparr>))\<rparr>)"

definition handlePointerUp ::
  "AppState \<Rightarrow> ActiveZone \<Rightarrow> PointerEvent \<Rightarrow> AppState \<Rightarrow> AppState" where
  "handlePointerUp cl target e st =
     (case currentStroke cl of
        None \<Rightarrow> st
      | Some cs \<Rightarrow>
          st\<lparr>strokes := strokes st @ [cs],
             currentStroke := None,
             pointerCapture :=
               (if pointerCapture st (pointerId e) = Some target
                then (pointerCapture st)(pointerId e := None)
                else pointerCapture st)\<rparr>)"

definition handleClearStrokes :: "AppState \<Rightarrow> AppState" where
  "handleClearStrokes st = st\<lparr>strokes := [], currentStroke := None\<rparr>"

definition onToggleSide :: "AppState \<Rightarrow> AppState" where
  "onToggleSide st = st\<lparr>activeZone := (if activeZone st = TOP then BOTTOM else TOP)\<rparr>"

definition onToggleVisibility :: "AppState \<Rightarrow> AppState \<Rightarrow> AppState" where
  "onToggleVisibility cl st = st\<lparr>hideActiveZone := (\<not> hideActiveZone cl)\<rparr>"

definition onToolChange :: "ToolType \<Rightarrow> AppState \<Rightarrow> AppState" where
  "onToolChange tool st = st\<lparr>currentTool := tool\<rparr>"

definition onColorChange :: "string \<Rightarrow> AppState \<Rightarrow> AppState" where
  "onColorChange c st = st\<lparr>penColor := c\<rparr>"

definition onWidthChange :: "AppState \<Rightarrow> number \<Rightarrow> AppState \<Rightarrow> AppState" where
  "onWidthChange cl v st =
     (if currentTool cl = eraser then st\<lparr>eraserWidth := v\<rparr> else st\<lparr>penWidth := v\<rparr>)"

text \<open>
  The wrappers of the zone component, with the properties of the last render: a
  pointer-down or a pointer-move on a zone that is not the writing zone returns before
  the session's handler is called, and such a zone has no handler for pointer-up and
  pointer-leave.
\<close>

definition CanvasZone_handlePointerDown ::
  "ActiveZone \<Rightarrow> AppState \<Rightarrow> PointerEvent \<Rightarrow> Point \<Rightarrow> AppState \<Rightarrow> AppState" where
  "CanvasZone_handlePointerDown zoneType cl e point st =
     (if \<not> isActiveWritingZone (activeZone cl) zoneType then st
      else handlePointerDown cl zoneType e point st)"

definition CanvasZone_handlePointerMove ::
  "ActiveZone \<Rightarrow> AppState \<Rightarrow> PointerEvent \<Rightarrow> Point \<Rightarrow> AppState \<Rightarrow> AppState" where
  "CanvasZone_handlePointerMove zoneType cl e point st =
     (if \<not> isActiveWritingZone (activeZone cl) zoneType then st
      else handlePointerMove cl e point st)"

definition CanvasZone_onPointerUp ::
  "ActiveZone \<Rightarrow> AppState \<Rightarrow> PointerEvent \<Rightarrow> AppState \<Rightarrow> AppState" where
  "CanvasZone_onPointerUp zoneType cl e st =
     (if isActiveWritingZone (activeZone cl) zoneType then handlePointerUp cl zoneType e st
      else st)"

section \<open>The session\<close>

text \<open>
  The events of a session. \<open>Render\<close> is React rendering the updates that are still
  pending, on its own schedule.
\<close>

datatype event =
    PointerDown ActiveZone PointerEvent Point
  | PointerMove ActiveZone PointerEvent Point
  | PointerUp ActiveZone PointerEvent
  | PointerLeave ActiveZone PointerEvent
  | ClearClick
  | ToggleSide
  | ToggleVisibility
  | ToolChange ToolType
  | ColorChange string
  | WidthChange number
  | Render

text \<open>The updates that the handler of an event queues, as the handlers of the render \<open>cl\<close>.\<close>

fun handler :: "AppState \<Rightarrow> event \<Rightarrow> AppState \<Rightarrow> AppState" where
  "handler cl (PointerDown z e p) = CanvasZone_handlePointerDown z cl e p"
| "handler cl (PointerMove z e p) = CanvasZone_handlePointerMove z cl e p"
| "handler cl (PointerUp z e) = CanvasZone_onPointerUp z cl e"
| "handler cl (PointerLeave z e) = CanvasZone_onPointerUp z cl e"
| "handler cl ClearClick = handleClearStrokes"
| "handler cl ToggleSide = onToggleSide"
| "handler cl ToggleVisibility = onToggleVisibility cl"
| "handler cl (ToolChange t) = onToolChange t"
| "handler cl (ColorChange c) = onColorChange c"
| "handler cl (WidthChange v) = onWidthChange cl v"
| "handler cl Render = (\<lambda>st. st)"

text \<open>
  React gives the updates of a pointer-move and of a pointer-leave the priority of a
  continuous event and renders them later, in a task of its scheduler; the other events
  are discrete, and their updates are rendered before the browser dispatches the next
  event.
\<close>

fun continuous :: "event \<Rightarrow> bool" where
  "continuous (PointerMove z e p) = True"
| "continuous (PointerLeave z e) = True"
| "continuous ev = False"

text \<open>
  A session is the state with every queued update applied, \<open>live\<close>, and the state of
  the last render, \<open>captured\<close>, which the handlers read. The updates of an event go to
  the live state. Those of a discrete event are rendered at once, on top of the last
  render: an update of a continuous event that is still pending stays pending. \<open>Render\<close>
  renders all that is pending, after which the handlers have captured the live state. A
  React that renders the pending updates together with those of a discrete event is the
  discrete event followed by \<open>Render\<close>.
\<close>

record Session =
  live :: AppState
  captured :: AppState

definition initialSession :: "string \<Rightarrow> Session" where
  "initialSession defaultImage =
     \<lparr>live = initialState defaultImage, captured = initialState defaultImage\<rparr>"

definition step :: "Session \<Rightarrow> event \<Rightarrow> Session" where
  "step ss ev =
     (if ev = Render then \<lparr>live = live ss, captured = live ss\<rparr>
      else if continuous ev
      then \<lparr>live = handler (captured ss) ev (live ss), captured = captured ss\<rparr>
      else \<lparr>live = handler (captured ss) ev (live ss),
            captured = handler (captured ss) ev (captured ss)\<rparr>)"

definition run :: "Session \<Rightarrow> event list \<Rightarrow> Session" where
  "run ss evs = foldl step ss evs"

text \<open>
  What a render hands to the canvas of a zone: the zone's tag, and the active zone,
  hidden flag, stroke log and in-progress stroke of the state that is rendered.
\<close>

definition renderZone ::
  "ActiveZone \<Rightarrow> AppState \<Rightarrow> number \<Rightarrow> HTMLCanvasElement option \<Rightarrow> HTMLCanvasElement option" where
  "renderZone zoneType st devicePixelRatio canvasRef =
     render zoneType (activeZone st) (hideActiveZone st) (strokes st) (currentStroke st)
       devicePixelRatio canvasRef"

section \<open>The surface\<close>

text \<open>
  What the Canvas API does to the surface with a recorded operation, for the settings
  the renderer uses. The surface is the plane of the context's coordinates (logical
  pixels), each position transparent (\<open>None\<close>) or of a colour; the pixel grid and
  antialiasing are left out. A call of \<^verbatim>\<open>moveTo\<close> or \<^verbatim>\<open>lineTo\<close> with an argument that is
  not finite is ignored, and a \<^verbatim>\<open>lineTo\<close> on an empty path only sets the start.
\<close>

type_synonym position = "real \<times> real"

type_synonym surface = "position \<Rightarrow> string option"

definition blank :: surface where
  "blank = (\<lambda>Q. None)"

definition finitePosition :: "number \<Rightarrow> number \<Rightarrow> position option" where
  "finitePosition a b =
     (case (a, b) of (Fin p, Fin q) \<Rightarrow> Some (of_rat p, of_rat q) | _ \<Rightarrow> None)"

fun pathSegments :: "position option \<Rightarrow> segment list \<Rightarrow> (position \<times> position) list" where
  "pathSegments cur [] = []"
| "pathSegments cur (MoveTo a b # rest) =
     (case finitePosition a b of
        None \<Rightarrow> pathSegments cur rest
      | Some P \<Rightarrow> pathSegments (Some P) rest)"
| "pathSegments cur (LineTo a b # rest) =
     (case finitePosition a b of
        None \<Rightarrow> pathSegments cur rest
      | Some P \<Rightarrow>
          (case cur of
             None \<Rightarrow> pathSegments (Some P) rest
           | Some A \<Rightarrow> (A, P) # pathSegments (Some P) rest))"

text \<open>
  \<open>Q\<close> is within the distance \<open>r\<close> of the segment from \<open>A\<close> to \<open>B\<close>: the nearest point
  of the segment is the projection of \<open>Q\<close> on its line, kept between the two ends, and
  it is \<open>A\<close> when the two ends coincide.
\<close>

definition nearSegment :: "real \<Rightarrow> position \<Rightarrow> position \<Rightarrow> position \<Rightarrow> bool" where
  "nearSegment r A B Q =
     (let dx = fst B - fst A;
          dy = snd B - snd A;
          len2 = dx * dx + dy * dy;
          t = (if len2 = 0 then 0
               else max 0 (min 1 (((fst Q - fst A) * dx + (snd Q - snd A) * dy) / len2)));
          cx = fst A + t * dx;
          cy = snd A + t * dy
      in (fst Q - cx)\<^sup>2 + (snd Q - cy)\<^sup>2 \<le> r\<^sup>2)"

definition nearPath :: "real \<Rightarrow> segment list \<Rightarrow> position \<Rightarrow> bool" where
  "nearPath r pth Q = list_ex (\<lambda>(A, B). nearSegment r A B Q) (pathSegments None pth)"

definition inRect :: "rat \<Rightarrow> rat \<Rightarrow> rat \<Rightarrow> rat \<Rightarrow> position \<Rightarrow> bool" where
  "inRect rx ry rw rh Q =
     (of_rat (min rx (rx + rw)) \<le> fst Q \<and> fst Q \<le> of_rat (max rx (rx + rw)) \<and>
      of_rat (min ry (ry + rh)) \<le> snd Q \<and> snd Q \<le> of_rat (max ry (ry + rh)))"

text \<open>
  One operation on a surface. \<^verbatim>\<open>clearRect\<close> makes its rectangle transparent and does
  nothing when an argument is not finite. \<^verbatim>\<open>stroke()\<close> with round caps and round joins
  covers the positions within half the line width of the path, a segment of length zero
  included; in the mode \<^verbatim>\<open>source-over\<close> the covered positions take the stroke style,
  read as an opaque colour, and in the mode \<^verbatim>\<open>destination-out\<close> they become
  transparent. Other caps, joins and modes, and a line width that is not positive and
  finite, are not interpreted: the result is \<open>None\<close>.
\<close>

definition paintOn :: "paint \<Rightarrow> surface \<Rightarrow> surface option" where
  "paintOn op sf =
     (case op of
        Cleared a b c d \<Rightarrow>
          (case (a, b, c, d) of
             (Fin rx, Fin ry, Fin rw, Fin rh) \<Rightarrow>
               Some (\<lambda>Q. if inRect rx ry rw rh Q then None else sf Q)
           | _ \<Rightarrow> Some sf)
      | Stroked mode style lw cap join pth \<Rightarrow>
          (case lw of
             Fin d \<Rightarrow>
               if 0 < d \<and> cap = ''round'' \<and> join = ''round''
               then
                 (if mode = ''source-over''
                  then Some (\<lambda>Q. if nearPath (of_rat d / 2) pth Q then Some style else sf Q)
                  else if mode = ''destination-out''
                  then Some (\<lambda>Q. if nearPath (of_rat d / 2) pth Q then None else sf Q)
                  else None)
               else None
           | _ \<Rightarrow> None))"

fun paintAll :: "paint list \<Rightarrow> surface \<Rightarrow> surface option" where
  "paintAll [] sf = Some sf"
| "paintAll (op # ops) sf =
     (case paintOn op sf of None \<Rightarrow> None | Some sf' \<Rightarrow> paintAll ops sf')"

text \<open>The disc of diameter \<open>d\<close> around the position \<open>(cx, cy)\<close>, its boundary included.\<close>

definition inDisc :: "rat \<Rightarrow> rat \<Rightarrow> rat \<Rightarrow> position \<Rightarrow> bool" where
  "inDisc cx cy d Q = ((fst Q - of_rat cx)\<^sup>2 + (snd Q - of_rat cy)\<^sup>2 \<le> (of_rat d / 2)\<^sup>2)"

section \<open>What the renderer is measured against\<close>

text \<open>
  The coordinate transform in the words of the specification (section 4.1):
  \<^verbatim>\<open>pixelX = point.x * W\<close>, \<^verbatim>\<open>pixelY = M ? (1 - point.y) * H : point.y * H\<close>,
  in the arithmetic of the source's numbers. The renderer has no such function: it
  computes the two products in line, and \<open>drawStroke_closed\<close> below relates the two.
\<close>

definition spec_transform :: "Point \<Rightarrow> number \<Rightarrow> number \<Rightarrow> bool \<Rightarrow> number \<times> number" where
  "spec_transform p W H mirror = (x p * W, (if mirror then (1 - y p) * H else y p * H))"

text \<open>
  The path of a stroke: a move to its first point, then a line to each later point, or
  a line to the first point itself when there is no later one.
\<close>

definition strokePath :: "Stroke \<Rightarrow> number \<Rightarrow> number \<Rightarrow> bool \<Rightarrow> segment list" where
  "strokePath s w h m =
     (case points s of
        [] \<Rightarrow> []
      | p0 # ps \<Rightarrow>
          MoveTo (fst (spec_transform p0 w h m)) (snd (spec_transform p0 w h m)) #
          map (\<lambda>p. LineTo (fst (spec_transform p w h m)) (snd (spec_transform p w h m)))
            (if ps = [] then [p0] else ps))"

text \<open>The raster operations one stroke adds: none without points, one otherwise.\<close>

definition strokeLayer :: "Stroke \<Rightarrow> number \<Rightarrow> number \<Rightarrow> bool \<Rightarrow> paint list" where
  "strokeLayer s w h m =
     (if points s = [] then []
      else [Stroked (if isEraser s = Some True then ''destination-out'' else ''source-over'')
              (if isEraser s = Some True then ''rgba(0,0,0,1)'' else color s)
              (width s) ''round'' ''round'' (strokePath s w h m)])"

definition coords :: "segment \<Rightarrow> number \<times> number" where
  "coords g = (case g of MoveTo a b \<Rightarrow> (a, b) | LineTo a b \<Rightarrow> (a, b))"

text \<open>The raster operations on the surface of a canvas reference.\<close>

definition rasterOf :: "HTMLCanvasElement option \<Rightarrow> paint list" where
  "rasterOf canvasRef =
     (case canvasRef of
        None \<Rightarrow> []
      | Some canvas \<Rightarrow> (case context2d canvas of None \<Rightarrow> [] | Some ctx \<Rightarrow> raster ctx))"

definition pending :: "Stroke option \<Rightarrow> Stroke list" where
  "pending cur = (case cur of None \<Rightarrow> [] | Some cs \<Rightarrow> [cs])"

text \<open>The logical size \<^verbatim>\<open>canvas.width / dpr\<close> with \<^verbatim>\<open>dpr = window.devicePixelRatio || 1\<close>.\<close>

definition logical :: "number \<Rightarrow> number \<Rightarrow> number" where
  "logical physical devicePixelRatio =
     physical / (if truthy devicePixelRatio then devicePixelRatio else 1)"

text \<open>Two strokes that differ at most in the colour of an eraser stroke.\<close>

definition sameButEraserColor :: "Stroke \<Rightarrow> Stroke \<Rightarrow> bool" where
  "sameButEraserColor a b =
     (a = b \<or> (isEraser a = Some True \<and> b = a\<lparr>color := color b\<rparr>))"

text \<open>
  The stroke a pointer-down creates in a state, and the test on the event that lets
  \<^verbatim>\<open>handlePointerDown\<close> and \<^verbatim>\<open>handlePointerMove\<close> go on: the event is not a mouse event
  with a button state other than the primary button alone.
\<close>

definition newStrokeOf :: "AppState \<Rightarrow> Point \<Rightarrow> Stroke" where
  "newStrokeOf st p =
     \<lparr>points = [p], color = penColor st,
      width = (if currentTool st = eraser then eraserWidth st else penWidth st),
      isEraser = Some (currentTool st = eraser)\<rparr>"

definition accepted :: "PointerEvent \<Rightarrow> bool" where
  "accepted e = (\<not> (pointerType e = ''mouse'' \<and> buttons e \<noteq> 1))"

text \<open>The events of a pointer that continue or end a gesture and never start one.\<close>

fun endsNothing :: "event \<Rightarrow> bool" where
  "endsNothing (PointerMove z e p) = True"
| "endsNothing (PointerUp z e) = True"
| "endsNothing (PointerLeave z e) = True"
| "endsNothing ev = False"

text \<open>
  The events after which no gesture has started or gone on: those of \<open>endsNothing\<close> and
  a render. A session is cleared when its log is empty and no stroke is in progress,
  in the live state and in the captured one.
\<close>

fun quiet :: "event \<Rightarrow> bool" where
  "quiet (PointerMove z e p) = True"
| "quiet (PointerUp z e) = True"
| "quiet (PointerLeave z e) = True"
| "quiet Render = True"
| "quiet ev = False"

definition cleared :: "Session \<Rightarrow> bool" where
  "cleared ss =
     (strokes (live ss) = [] \<and> currentStroke (live ss) = None \<and>
      currentStroke (captured ss) = None)"

subsection \<open>Concrete values\<close>

definition examplePoint :: Point where
  "examplePoint = \<lparr>x = Fin (1 / 2), y = Fin (1 / 2)\<rparr>"

definition examplePoint2 :: Point where
  "examplePoint2 = \<lparr>x = Fin (3 / 4), y = Fin (1 / 4)\<rparr>"

text \<open>The point whose Y is the double nearest to 0.1.\<close>

definition examplePointTenth :: Point where
  "examplePointTenth = \<lparr>x = Fin (1 / 2), y = Fin (3602879701896397 / 36028797018963968)\<rparr>"

definition examplePen :: Stroke where
  "examplePen =
     \<lparr>points = [examplePoint, examplePoint2], color = ''#000000'', width = Fin 4,
      isEraser = Some False\<rparr>"

definition exampleDot :: Stroke where
  "exampleDot =
     \<lparr>points = [examplePoint], color = ''#000000'', width = Fin 4, isEraser = Some False\<rparr>"

definition exampleEraser :: Stroke where
  "exampleEraser =
     \<lparr>points = [examplePoint], color = ''#ff0000'', width = Fin 20, isEraser = Some True\<rparr>"

text \<open>A fresh context, with the defaults of the Canvas API, on an 800 by 600 buffer.\<close>

definition exampleContext :: CanvasRenderingContext2D where
  "exampleContext =
     \<lparr>globalCompositeOperation = ''source-over'', strokeStyle = ''#000000'', lineWidth = Fin 1,
      lineCap = ''butt'', lineJoin = ''miter'', path = [], raster = []\<rparr>"

definition exampleCanvas :: HTMLCanvasElement where
  "exampleCanvas =
     \<lparr>canvas_width = Fin 800, canvas_height = Fin 600, context2d = Some exampleContext\<rparr>"

definition exampleTouch :: PointerEvent where
  "exampleTouch = \<lparr>pointerType = ''touch'', buttons = 1, pointerId = 1\<rparr>"

section \<open>Properties of the rounding\<close>

text \<open>
  The binade of a positive value brackets it between two powers of two, rounding to an
  integer moves a value by at most one half, and a finite result of \<open>toDouble\<close> is
  within half a unit in the last place of the exact value.
\<close>

lemma bitLength_0: "bitLength 0 = 0"
  by (subst bitLength.simps) simp

lemma bitLength_pos: "0 < n \<Longrightarrow> bitLength n = Suc (bitLength (n div 2))"
  by (subst bitLength.simps) simp

lemma bitLength_bounds:
  "0 < n \<Longrightarrow> 2 ^ (bitLength n - 1) \<le> n \<and> n < 2 ^ bitLength n"
proof (induction n rule: bitLength.induct)
  case (1 n)
  have e: "bitLength n = Suc (bitLength (n div 2))"
    using "1.prems" by (rule bitLength_pos)
  show ?case
  proof (cases "n div 2 = 0")
    case True
    with "1.prems" have "n = 1" by (simp add: div_eq_0_iff)
    then show ?thesis using e by (simp add: bitLength_0)
  next
    case False
    then have pos: "0 < n div 2" by simp
    with "1.prems" "1.IH" have ih: "2 ^ (bitLength (n div 2) - 1) \<le> n div 2 \<and> n div 2 < 2 ^ bitLength (n div 2)"
      by simp
    from pos obtain k where k: "bitLength (n div 2) = Suc k"
      using bitLength_pos by blast
    from ih k have "2 ^ k \<le> n div 2" and "n div 2 < 2 * 2 ^ k" by simp_all
    then have "2 * 2 ^ k \<le> n" and "n < 2 * (2 * 2 ^ k)" by linarith+
    then show ?thesis using e k by simp
  qed
qed

lemma roundHalfEven_near: "\<bar>of_int (roundHalfEven n) - n\<bar> \<le> 1 / 2"
proof -
  have "of_int \<lfloor>n\<rfloor> \<le> n" and "n < of_int \<lfloor>n\<rfloor> + 1" by linarith+
  then show ?thesis
    by (auto simp add: roundHalfEven_def Let_def abs_le_iff)
qed

lemma binade_bounds:
  assumes "0 < a"
  shows "pow2 (binade a) \<le> a \<and> a < pow2 (binade a + 1)"
proof (cases "1 \<le> a")
  case True
  let ?n = "nat \<lfloor>a\<rfloor>"
  from True have n: "0 < ?n" by simp
  from True have fl: "of_nat ?n \<le> a" and fu: "a < of_nat ?n + 1"
    by (simp_all add: of_nat_nat) linarith+
  from n obtain k where k: "bitLength ?n = Suc k"
    using bitLength_pos by blast
  from bitLength_bounds [OF n] k have "2 ^ k \<le> ?n" and "?n + 1 \<le> 2 * 2 ^ k"
    by simp_all
  then have "(of_nat (2 ^ k) :: rat) \<le> of_nat ?n"
    and "(of_nat (?n + 1) :: rat) \<le> of_nat (2 * 2 ^ k)"
    by (simp_all only: of_nat_le_iff)
  then have "(2::rat) ^ k \<le> of_nat ?n" and "(of_nat ?n :: rat) + 1 \<le> 2 * 2 ^ k"
    by simp_all
  with fl fu have "(2::rat) ^ k \<le> a" and "a < 2 * 2 ^ k" by linarith+
  moreover from True k have "binade a = int k" by (simp add: binade_def)
  ultimately show ?thesis by (simp add: pow2_def nat_add_distrib)
next
  case False
  with assms have inv: "1 < 1 / a" by simp
  let ?n = "nat (\<lceil>1 / a\<rceil> - 1)"
  from inv have c: "2 \<le> \<lceil>1 / a\<rceil>" by linarith
  then have n: "0 < ?n" by simp
  from c have cl: "(of_nat ?n :: rat) < 1 / a" and cu: "1 / a \<le> of_nat ?n + 1"
    by (simp_all add: of_nat_nat) linarith+
  from n obtain k where k: "bitLength ?n = Suc k"
    using bitLength_pos by blast
  from bitLength_bounds [OF n] k have "2 ^ k \<le> ?n" and "?n + 1 \<le> 2 * 2 ^ k"
    by simp_all
  then have "(of_nat (2 ^ k) :: rat) \<le> of_nat ?n"
    and "(of_nat (?n + 1) :: rat) \<le> of_nat (2 * 2 ^ k)"
    by (simp_all only: of_nat_le_iff)
  then have "(2::rat) ^ k \<le> of_nat ?n" and "(of_nat ?n :: rat) + 1 \<le> 2 * 2 ^ k"
    by simp_all
  with cl cu have lo: "(2::rat) ^ k < 1 / a" and hi: "1 / a \<le> 2 * 2 ^ k" by linarith+
  from hi assms have "1 / (2 * 2 ^ k) \<le> a"
    by (simp add: field_simps)
  moreover from lo assms have "a < 1 / 2 ^ k"
    by (simp add: field_simps)
  moreover from False k have "binade a = - int (Suc k)" by (simp add: binade_def)
  ultimately show ?thesis by (cases k) (simp_all add: pow2_def nat_add_distrib)
qed


lemma pow2_pos: "0 < pow2 k"
  by (simp add: pow2_def)

lemma toDouble_near:
  assumes "toDouble q = Fin v"
  shows "\<bar>v - q\<bar> \<le> pow2 (max (binade \<bar>q\<bar>) (- 1022) - 52) / 2"
proof (cases "q = 0")
  case True
  with assms show ?thesis using pow2_pos [of "max (binade \<bar>q\<bar>) (- 1022) - 52"]
    by (simp add: toDouble_def)
next
  case False
  let ?u = "pow2 (max (binade \<bar>q\<bar>) (- 1022) - 52)"
  let ?m = "roundHalfEven (\<bar>q\<bar> / ?u)"
  have u: "0 < ?u" by (rule pow2_pos)
  from assms False have v: "v = (if q < 0 then - (of_int ?m * ?u) else of_int ?m * ?u)"
    by (simp add: toDouble_def Let_def split: if_splits)
  have "\<bar>of_int ?m - \<bar>q\<bar> / ?u\<bar> \<le> 1 / 2"
    by (rule roundHalfEven_near)
  then have "\<bar>of_int ?m - \<bar>q\<bar> / ?u\<bar> * ?u \<le> 1 / 2 * ?u"
    using u by (simp only: mult_le_cancel_right_pos)
  moreover have "\<bar>of_int ?m - \<bar>q\<bar> / ?u\<bar> * ?u = \<bar>of_int ?m * ?u - \<bar>q\<bar>\<bar>"
  proof -
    have "(of_int ?m - \<bar>q\<bar> / ?u) * ?u = of_int ?m * ?u - \<bar>q\<bar>"
      using u by (simp add: left_diff_distrib)
    then have "\<bar>of_int ?m * ?u - \<bar>q\<bar>\<bar> = \<bar>(of_int ?m - \<bar>q\<bar> / ?u) * ?u\<bar>"
      by (simp only:)
    also have "\<dots> = \<bar>of_int ?m - \<bar>q\<bar> / ?u\<bar> * \<bar>?u\<bar>"
      by (rule abs_mult)
    also have "\<bar>?u\<bar> = ?u"
      using u by (rule abs_of_pos)
    finally show ?thesis by (rule sym)
  qed
  ultimately have "\<bar>of_int ?m * ?u - \<bar>q\<bar>\<bar> \<le> ?u / 2"
    by simp
  with v show ?thesis
    by (cases "q < 0") (simp_all add: abs_if split: if_splits)
qed

section \<open>The renderer in closed form\<close>

lemma fold_lineTo:
  "fold (\<lambda>p. lineTo (f p) (g p)) ps c = c\<lparr>path := path c @ map (\<lambda>p. LineTo (f p) (g p)) ps\<rparr>"
  by (induction ps arbitrary: c) (simp_all add: lineTo_def)

lemma drawStroke_empty: "points s = [] \<Longrightarrow> drawStroke c s w h m = c"
  by (simp add: drawStroke_def)

lemma drawStroke_closed:
  assumes "points s \<noteq> []"
  shows "drawStroke c s w h m =
     c\<lparr>globalCompositeOperation := ''source-over'',
       strokeStyle := (if isEraser s = Some True then ''rgba(0,0,0,1)'' else color s),
       lineWidth := width s, lineCap := ''round'', lineJoin := ''round'',
       path := strokePath s w h m,
       raster := raster c @ strokeLayer s w h m\<rparr>"
proof (cases "points s")
  case Nil
  with assms show ?thesis by simp
next
  case (Cons p0 ps)
  show ?thesis
  proof (cases ps)
    case Nil
    with Cons show ?thesis
      by (simp add: drawStroke_def Let_def beginPath_def moveTo_def lineTo_def ctx_stroke_def
          strokeLayer_def strokePath_def spec_transform_def)
  next
    case (Cons p1 ps')
    with \<open>points s = p0 # ps\<close> show ?thesis
      by (simp add: drawStroke_def Let_def beginPath_def moveTo_def ctx_stroke_def
          fold_lineTo strokeLayer_def strokePath_def spec_transform_def lineTo_def)
  qed
qed

lemma raster_drawStroke: "raster (drawStroke c s w h m) = raster c @ strokeLayer s w h m"
  by (cases "points s = []") (simp_all add: drawStroke_empty drawStroke_closed strokeLayer_def)

lemma fold_drawStroke_raster:
  "raster (fold (\<lambda>s c. drawStroke c s w h m) ss c) =
     raster c @ concat (map (\<lambda>s. strokeLayer s w h m) ss)"
  by (induction ss arbitrary: c) (simp_all add: raster_drawStroke)

lemma render_hidden:
  assumes "context2d canvas = Some ctx" and "\<not> shouldShowContent az zt hid"
  shows "render zt az hid ss cur dpr (Some canvas) =
     Some (canvas\<lparr>context2d :=
       Some (clearRect 0 0 (canvas_width canvas) (canvas_height canvas) ctx)\<rparr>)"
  using assms by (simp add: render_def)

lemma render_shown_raster:
  assumes "context2d canvas = Some ctx" and "shouldShowContent az zt hid"
  shows "rasterOf (render zt az hid ss cur dpr (Some canvas)) =
     raster ctx @ Cleared 0 0 (canvas_width canvas) (canvas_height canvas) #
       concat (map (\<lambda>s. strokeLayer s (logical (canvas_width canvas) dpr)
                           (logical (canvas_height canvas) dpr) (isMirror az zt))
                 (ss @ pending cur))"
  using assms
  by (cases cur)
     (simp_all add: render_def rasterOf_def Let_def pending_def logical_def
        fold_drawStroke_raster raster_drawStroke clearRect_def)

lemma drawStroke_eraser_color:
  "isEraser s = Some True \<Longrightarrow> drawStroke c (s\<lparr>color := k\<rparr>) w h m = drawStroke c s w h m"
  by (cases "points s = []")
     (simp_all add: drawStroke_empty drawStroke_closed strokeLayer_def strokePath_def)

lemma sameButEraserColor_drawStroke:
  "sameButEraserColor a b \<Longrightarrow> drawStroke c a w h m = drawStroke c b w h m"
  unfolding sameButEraserColor_def
  by (metis drawStroke_eraser_color)

lemma fold_sameButEraserColor:
  "list_all2 sameButEraserColor ss ts \<Longrightarrow>
     fold (\<lambda>s c. drawStroke c s w h m) ss c = fold (\<lambda>s c. drawStroke c s w h m) ts c"
  by (induction ss ts arbitrary: c rule: list_all2_induct)
     (simp_all add: sameButEraserColor_drawStroke)

section \<open>The session in closed form\<close>

lemma run_Nil: "run ss [] = ss"
  by (simp add: run_def)

lemma run_Cons: "run ss (ev # evs) = run (step ss ev) evs"
  by (simp add: run_def)

lemma run_append: "run ss (evs @ evs') = run (run ss evs) evs'"
  by (simp add: run_def)

lemma step_Render: "step ss Render = \<lparr>live = live ss, captured = live ss\<rparr>"
  by (simp add: step_def)

lemma step_PointerDown:
  "step ss (PointerDown z e p) =
     \<lparr>live = CanvasZone_handlePointerDown z (captured ss) e p (live ss),
      captured = CanvasZone_handlePointerDown z (captured ss) e p (captured ss)\<rparr>"
  by (simp add: step_def)

lemma step_PointerUp:
  "step ss (PointerUp z e) =
     \<lparr>live = CanvasZone_onPointerUp z (captured ss) e (live ss),
      captured = CanvasZone_onPointerUp z (captured ss) e (captured ss)\<rparr>"
  by (simp add: step_def)

lemma step_PointerMove:
  "step ss (PointerMove z e p) =
     \<lparr>live = CanvasZone_handlePointerMove z (captured ss) e p (live ss),
      captured = captured ss\<rparr>"
  by (simp add: step_def)

lemma step_PointerLeave:
  "step ss (PointerLeave z e) =
     \<lparr>live = CanvasZone_onPointerUp z (captured ss) e (live ss), captured = captured ss\<rparr>"
  by (simp add: step_def)

lemma step_ClearClick:
  "step ss ClearClick =
     \<lparr>live = handleClearStrokes (live ss), captured = handleClearStrokes (captured ss)\<rparr>"
  by (simp add: step_def)

lemma step_ToggleSide:
  "step ss ToggleSide = \<lparr>live = onToggleSide (live ss), captured = onToggleSide (captured ss)\<rparr>"
  by (simp add: step_def)

lemma down_accepted:
  "activeZone (captured ss) = z \<Longrightarrow> accepted e \<Longrightarrow>
     step ss (PointerDown z e p) =
       \<lparr>live = (live ss)\<lparr>pointerCapture := (pointerCapture (live ss))(pointerId e \<mapsto> z),
                        currentStroke := Some (newStrokeOf (captured ss) p)\<rparr>,
        captured = (captured ss)\<lparr>pointerCapture := (pointerCapture (captured ss))(pointerId e \<mapsto> z),
                                currentStroke := Some (newStrokeOf (captured ss) p)\<rparr>\<rparr>"
  by (auto simp add: step_PointerDown CanvasZone_handlePointerDown_def handlePointerDown_def
      isActiveWritingZone_def accepted_def newStrokeOf_def Let_def)

lemma up_captured:
  "activeZone (captured ss) = z \<Longrightarrow> currentStroke (captured ss) = Some cs \<Longrightarrow>
     strokes (live (step ss (PointerUp z e))) = strokes (live ss) @ [cs] \<and>
     currentStroke (live (step ss (PointerUp z e))) = None \<and>
     currentStroke (captured (step ss (PointerUp z e))) = None"
  by (simp add: step_PointerUp CanvasZone_onPointerUp_def handlePointerUp_def
      isActiveWritingZone_def)

lemma idle_ignores:
  "currentStroke (captured ss) = None \<Longrightarrow> endsNothing ev \<Longrightarrow> step ss ev = ss"
  by (cases ev)
     (simp_all add: step_def CanvasZone_handlePointerMove_def handlePointerMove_def
        CanvasZone_onPointerUp_def handlePointerUp_def)

lemma idle_ignores_run:
  "currentStroke (captured ss) = None \<Longrightarrow> list_all endsNothing evs \<Longrightarrow> run ss evs = ss"
  by (induction evs) (simp_all add: run_Nil run_Cons idle_ignores)

lemma cleared_step:
  assumes "cleared ss" and "quiet ev"
  shows "cleared (step ss ev)"
proof (cases "ev = Render")
  case True
  with assms show ?thesis by (simp add: cleared_def step_Render)
next
  case False
  with assms have "endsNothing ev" by (cases ev) simp_all
  with assms have "step ss ev = ss" by (simp add: idle_ignores cleared_def)
  with assms show ?thesis by simp
qed

lemma cleared_run: "cleared ss \<Longrightarrow> list_all quiet evs \<Longrightarrow> cleared (run ss evs)"
  by (induction evs arbitrary: ss) (simp_all add: run_Nil run_Cons cleared_step)

section \<open>Clearing during a gesture\<close>

text \<open>
  C1, as the specification states it: a clear action during a gesture empties the stroke
  log and leaves the in-progress stroke alone, so that the pointer-up that follows
  commits it and the log then holds exactly that stroke. The session does otherwise.
  From the initial state, a touch goes down on the writing zone, the clear action runs,
  and the touch goes up: the clear action removes the in-progress stroke, and after the
  pointer-up the log is empty, not the one-stroke log of the claim.
\<close>

theorem clear_keeps_gesture_counterexample:
  "currentStroke (live (run (initialSession [])
       [PointerDown BOTTOM exampleTouch examplePoint])) =
     Some \<lparr>points = [examplePoint], color = ''#000000'', width = Fin 4,
           isEraser = Some False\<rparr> \<and>
   currentStroke (live (run (initialSession [])
       [PointerDown BOTTOM exampleTouch examplePoint, ClearClick]))
     \<noteq> currentStroke (live (run (initialSession [])
           [PointerDown BOTTOM exampleTouch examplePoint])) \<and>
   strokes (live (run (initialSession [])
              [PointerDown BOTTOM exampleTouch examplePoint, ClearClick,
               PointerUp BOTTOM exampleTouch]))
     \<noteq> [\<lparr>points = [examplePoint], color = ''#000000'', width = Fin 4,
           isEraser = Some False\<rparr>]"
  by (simp add: run_def step_def initialSession_def initialState_def exampleTouch_def
      CanvasZone_handlePointerDown_def handlePointerDown_def isActiveWritingZone_def
      handleClearStrokes_def CanvasZone_onPointerUp_def handlePointerUp_def)

text \<open>
  C1, amended: the clear action empties the stroke log and discards the in-progress
  stroke with it, in every state, and it is rendered before the next event. The rest of
  the interrupted gesture is then ignored: a pointer-move, pointer-up or pointer-leave
  on either zone, and any sequence of them, leaves the cleared session as it is; with
  renders among them the log stays empty and no stroke is in progress, until a new
  pointer-down.
\<close>

theorem clear_cancels_gesture:
  "strokes (live (step ss ClearClick)) = [] \<and>
   currentStroke (live (step ss ClearClick)) = None \<and>
   step (step ss ClearClick) (PointerMove z e p) = step ss ClearClick \<and>
   step (step ss ClearClick) (PointerUp z e) = step ss ClearClick \<and>
   step (step ss ClearClick) (PointerLeave z e) = step ss ClearClick \<and>
   (list_all endsNothing evs \<longrightarrow> run (step ss ClearClick) evs = step ss ClearClick) \<and>
   (list_all quiet evs \<longrightarrow>
      strokes (live (run (step ss ClearClick) evs)) = [] \<and>
      currentStroke (live (run (step ss ClearClick) evs)) = None)"
proof -
  have c: "cleared (step ss ClearClick)"
    by (simp add: cleared_def step_ClearClick handleClearStrokes_def)
  then have idle: "currentStroke (captured (step ss ClearClick)) = None"
    by (simp add: cleared_def)
  have "step (step ss ClearClick) (PointerMove z e p) = step ss ClearClick"
    using idle by (intro idle_ignores) simp_all
  moreover have "step (step ss ClearClick) (PointerUp z e) = step ss ClearClick"
    using idle by (intro idle_ignores) simp_all
  moreover have "step (step ss ClearClick) (PointerLeave z e) = step ss ClearClick"
    using idle by (intro idle_ignores) simp_all
  moreover have "list_all endsNothing evs \<longrightarrow> run (step ss ClearClick) evs = step ss ClearClick"
    using idle by (simp add: idle_ignores_run)
  moreover have "list_all quiet evs \<longrightarrow>
      strokes (live (run (step ss ClearClick) evs)) = [] \<and>
      currentStroke (live (run (step ss ClearClick) evs)) = None"
    using cleared_run [OF c, of evs] by (simp add: cleared_def)
  ultimately show ?thesis using c by (simp add: cleared_def)
qed

theorem clear_cancels_gesture_witness:
  "list_all endsNothing
     [PointerMove BOTTOM exampleTouch examplePoint2, PointerUp BOTTOM exampleTouch] \<and>
   list_all quiet
     [PointerMove BOTTOM exampleTouch examplePoint2, Render, PointerUp BOTTOM exampleTouch] \<and>
   currentStroke (live (step (initialSession [])
       (PointerDown BOTTOM exampleTouch examplePoint))) \<noteq> None \<and>
   strokes (live (run (step (step (initialSession [])
                   (PointerDown BOTTOM exampleTouch examplePoint)) ClearClick)
              [PointerMove BOTTOM exampleTouch examplePoint2, PointerUp BOTTOM exampleTouch]))
     = [] \<and>
   currentStroke (live (run (step (step (initialSession [])
                   (PointerDown BOTTOM exampleTouch examplePoint)) ClearClick)
              [PointerMove BOTTOM exampleTouch examplePoint2, Render,
               PointerUp BOTTOM exampleTouch])) = None"
proof -
  let ?ss = "step (initialSession []) (PointerDown BOTTOM exampleTouch examplePoint)"
  let ?evs = "[PointerMove BOTTOM exampleTouch examplePoint2, PointerUp BOTTOM exampleTouch]"
  let ?evs' = "[PointerMove BOTTOM exampleTouch examplePoint2, Render,
               PointerUp BOTTOM exampleTouch]"
  have a: "list_all endsNothing ?evs" and b: "list_all quiet ?evs'"
    by simp_all
  have d: "currentStroke (live ?ss) \<noteq> None"
    by (simp add: step_PointerDown initialSession_def initialState_def exampleTouch_def
        CanvasZone_handlePointerDown_def handlePointerDown_def isActiveWritingZone_def)
  have "strokes (live (step ?ss ClearClick)) = []"
    using clear_cancels_gesture [of ?ss] by blast
  moreover have "run (step ?ss ClearClick) ?evs = step ?ss ClearClick"
    using clear_cancels_gesture [of ?ss _ _ _ ?evs] a by blast
  ultimately have "strokes (live (run (step ?ss ClearClick) ?evs)) = []"
    by (simp only:)
  moreover have "currentStroke (live (run (step ?ss ClearClick) ?evs')) = None"
    using clear_cancels_gesture [of ?ss _ _ _ ?evs'] b by blast
  ultimately show ?thesis using a b d by blast
qed

section \<open>A gesture from pointer-down to commit\<close>

text \<open>
  C2: the claim has the pointer-up append the in-progress stroke, however many points
  it has. \<^verbatim>\<open>handlePointerUp\<close> appends the \<^verbatim>\<open>currentStroke\<close> of the render its closure
  comes from, where its sibling \<^verbatim>\<open>handlePointerMove\<close> extends the stroke through an
  updater on the latest value. From the initial session a touch goes down on the writing
  zone at \<open>examplePoint\<close> and moves to \<open>examplePoint2\<close>: the in-progress stroke has the two
  points. The pointer-up arrives before React has rendered the move: the stroke it
  commits has the first point only, and the second is lost. When the move is rendered
  before the pointer-up, the stroke with both points is committed.
\<close>

theorem pointer_up_drops_unrendered_move:
  "currentStroke (live (run (initialSession [])
       [PointerDown BOTTOM exampleTouch examplePoint,
        PointerMove BOTTOM exampleTouch examplePoint2])) = Some examplePen \<and>
   strokes (live (run (initialSession [])
       [PointerDown BOTTOM exampleTouch examplePoint,
        PointerMove BOTTOM exampleTouch examplePoint2,
        PointerUp BOTTOM exampleTouch])) = [exampleDot] \<and>
   currentStroke (live (run (initialSession [])
       [PointerDown BOTTOM exampleTouch examplePoint,
        PointerMove BOTTOM exampleTouch examplePoint2,
        PointerUp BOTTOM exampleTouch])) = None \<and>
   strokes (live (run (initialSession [])
       [PointerDown BOTTOM exampleTouch examplePoint,
        PointerMove BOTTOM exampleTouch examplePoint2,
        PointerUp BOTTOM exampleTouch, Render])) = [exampleDot] \<and>
   strokes (live (run (initialSession [])
       [PointerDown BOTTOM exampleTouch examplePoint,
        PointerMove BOTTOM exampleTouch examplePoint2, Render,
        PointerUp BOTTOM exampleTouch])) = [examplePen]"
  by (simp add: run_def step_def initialSession_def initialState_def exampleTouch_def
      examplePen_def exampleDot_def
      CanvasZone_handlePointerDown_def handlePointerDown_def isActiveWritingZone_def
      CanvasZone_handlePointerMove_def handlePointerMove_def
      CanvasZone_onPointerUp_def handlePointerUp_def)

section \<open>A pointer-down during a gesture\<close>

text \<open>
  C10: when the writing zone accepts a pointer-down while an in-progress stroke exists,
  the stroke log is unchanged and the in-progress stroke becomes a fresh stroke with
  the down position as its only point. The stroke that was in progress is not
  committed and leaves no trace: the session after the pointer-down, and with it every
  later session, is the one reached from the same session without an in-progress
  stroke, in the live state and in the captured one.
\<close>

theorem pointer_down_discards:
  "activeZone (captured ss) = z \<and> accepted e \<and> currentStroke (live ss) = Some old \<longrightarrow>
     strokes (live (step ss (PointerDown z e p))) = strokes (live ss) \<and>
     currentStroke (live (step ss (PointerDown z e p))) = Some (newStrokeOf (captured ss) p) \<and>
     points (newStrokeOf (captured ss) p) = [p] \<and>
     step ss (PointerDown z e p) =
       step (ss\<lparr>live := (live ss)\<lparr>currentStroke := None\<rparr>\<rparr>) (PointerDown z e p) \<and>
     step ss (PointerDown z e p) =
       step \<lparr>live = (live ss)\<lparr>currentStroke := None\<rparr>,
             captured = (captured ss)\<lparr>currentStroke := None\<rparr>\<rparr> (PointerDown z e p) \<and>
     run ss (PointerDown z e p # evs) =
       run (ss\<lparr>live := (live ss)\<lparr>currentStroke := None\<rparr>\<rparr>) (PointerDown z e p # evs) \<and>
     run ss (PointerDown z e p # evs) =
       run \<lparr>live = (live ss)\<lparr>currentStroke := None\<rparr>,
            captured = (captured ss)\<lparr>currentStroke := None\<rparr>\<rparr> (PointerDown z e p # evs)"
proof (intro impI)
  assume a: "activeZone (captured ss) = z \<and> accepted e \<and> currentStroke (live ss) = Some old"
  let ?d = "PointerDown z e p"
  have same: "step ss ?d = step (ss\<lparr>live := (live ss)\<lparr>currentStroke := None\<rparr>\<rparr>) ?d"
    using a by (simp add: down_accepted)
  have same': "step ss ?d =
      step \<lparr>live = (live ss)\<lparr>currentStroke := None\<rparr>,
            captured = (captured ss)\<lparr>currentStroke := None\<rparr>\<rparr> ?d"
    using a by (simp add: down_accepted newStrokeOf_def)
  have "strokes (live (step ss ?d)) = strokes (live ss)"
    using a by (simp add: down_accepted)
  moreover have "currentStroke (live (step ss ?d)) = Some (newStrokeOf (captured ss) p)"
    using a by (simp add: down_accepted)
  moreover have "points (newStrokeOf (captured ss) p) = [p]"
    by (simp add: newStrokeOf_def)
  moreover have "run ss (?d # evs) =
      run (ss\<lparr>live := (live ss)\<lparr>currentStroke := None\<rparr>\<rparr>) (?d # evs)"
    unfolding run_Cons using same by simp
  moreover have "run ss (?d # evs) =
      run \<lparr>live = (live ss)\<lparr>currentStroke := None\<rparr>,
           captured = (captured ss)\<lparr>currentStroke := None\<rparr>\<rparr> (?d # evs)"
    unfolding run_Cons using same' by simp
  ultimately show "strokes (live (step ss ?d)) = strokes (live ss) \<and>
     currentStroke (live (step ss ?d)) = Some (newStrokeOf (captured ss) p) \<and>
     points (newStrokeOf (captured ss) p) = [p] \<and>
     step ss ?d = step (ss\<lparr>live := (live ss)\<lparr>currentStroke := None\<rparr>\<rparr>) ?d \<and>
     step ss ?d =
       step \<lparr>live = (live ss)\<lparr>currentStroke := None\<rparr>,
             captured = (captured ss)\<lparr>currentStroke := None\<rparr>\<rparr> ?d \<and>
     run ss (?d # evs) =
       run (ss\<lparr>live := (live ss)\<lparr>currentStroke := None\<rparr>\<rparr>) (?d # evs) \<and>
     run ss (?d # evs) =
       run \<lparr>live = (live ss)\<lparr>currentStroke := None\<rparr>,
            captured = (captured ss)\<lparr>currentStroke := None\<rparr>\<rparr> (?d # evs)"
    using same same' by blast
qed

theorem pointer_down_discards_witness:
  "activeZone (captured (run (initialSession [])
      [PointerDown BOTTOM exampleTouch examplePoint,
       PointerMove BOTTOM exampleTouch examplePoint2, Render])) = BOTTOM \<and>
   accepted exampleTouch \<and>
   currentStroke (live (run (initialSession [])
      [PointerDown BOTTOM exampleTouch examplePoint,
       PointerMove BOTTOM exampleTouch examplePoint2, Render])) = Some examplePen \<and>
   strokes (live (run (initialSession [])
      [PointerDown BOTTOM exampleTouch examplePoint,
       PointerMove BOTTOM exampleTouch examplePoint2, Render,
       PointerDown BOTTOM exampleTouch examplePoint2])) = [] \<and>
   currentStroke (live (run (initialSession [])
      [PointerDown BOTTOM exampleTouch examplePoint,
       PointerMove BOTTOM exampleTouch examplePoint2, Render,
       PointerDown BOTTOM exampleTouch examplePoint2])) =
     Some \<lparr>points = [examplePoint2], color = ''#000000'', width = Fin 4,
           isEraser = Some False\<rparr> \<and>
   strokes (live (run (initialSession [])
      [PointerDown BOTTOM exampleTouch examplePoint,
       PointerMove BOTTOM exampleTouch examplePoint2, Render,
       PointerDown BOTTOM exampleTouch examplePoint2, PointerUp BOTTOM exampleTouch])) =
     [\<lparr>points = [examplePoint2], color = ''#000000'', width = Fin 4,
       isEraser = Some False\<rparr>]"
proof -
  let ?ss = "run (initialSession [])
      [PointerDown BOTTOM exampleTouch examplePoint,
       PointerMove BOTTOM exampleTouch examplePoint2, Render]"
  let ?d = "PointerDown BOTTOM exampleTouch examplePoint2"
  let ?new = "\<lparr>points = [examplePoint2], color = ''#000000'', width = Fin 4,
               isEraser = Some False\<rparr>"
  have ss: "?ss =
      \<lparr>live = (initialState [])\<lparr>pointerCapture := [1 \<mapsto> BOTTOM],
                                  currentStroke := Some examplePen\<rparr>,
       captured = (initialState [])\<lparr>pointerCapture := [1 \<mapsto> BOTTOM],
                                      currentStroke := Some examplePen\<rparr>\<rparr>"
    by (simp add: run_def step_def initialSession_def initialState_def exampleTouch_def
        examplePen_def CanvasZone_handlePointerDown_def handlePointerDown_def
        isActiveWritingZone_def CanvasZone_handlePointerMove_def handlePointerMove_def)
  have h: "activeZone (captured ?ss) = BOTTOM \<and> accepted exampleTouch \<and>
      currentStroke (live ?ss) = Some examplePen"
    unfolding ss by (simp add: initialState_def accepted_def exampleTouch_def)
  note t = pointer_down_discards
    [of ?ss BOTTOM exampleTouch examplePen examplePoint2 "[PointerUp BOTTOM exampleTouch]"]
  from t h have c1: "strokes (live (step ?ss ?d)) = strokes (live ?ss)"
    and c2: "currentStroke (live (step ?ss ?d)) = Some (newStrokeOf (captured ?ss) examplePoint2)"
    and c3: "run ?ss [?d, PointerUp BOTTOM exampleTouch] =
      run \<lparr>live = (live ?ss)\<lparr>currentStroke := None\<rparr>,
           captured = (captured ?ss)\<lparr>currentStroke := None\<rparr>\<rparr>
        [?d, PointerUp BOTTOM exampleTouch]"
    by blast+
  have "strokes (live ?ss) = []"
    unfolding ss by (simp add: initialState_def)
  with c1 have r1: "strokes (live (step ?ss ?d)) = []"
    by (simp only:)
  have "newStrokeOf (captured ?ss) examplePoint2 = ?new"
    unfolding ss by (simp add: initialState_def newStrokeOf_def)
  with c2 have r2: "currentStroke (live (step ?ss ?d)) = Some ?new"
    by (simp only:)
  have "strokes (live (run \<lparr>live = (live ?ss)\<lparr>currentStroke := None\<rparr>,
           captured = (captured ?ss)\<lparr>currentStroke := None\<rparr>\<rparr>
        [?d, PointerUp BOTTOM exampleTouch])) = [?new]"
    unfolding ss
    by (simp add: run_def step_def initialState_def exampleTouch_def
        CanvasZone_handlePointerDown_def handlePointerDown_def isActiveWritingZone_def
        CanvasZone_onPointerUp_def handlePointerUp_def)
  with c3 have r3: "strokes (live (run ?ss [?d, PointerUp BOTTOM exampleTouch])) = [?new]"
    by (simp only:)
  have e1: "run (initialSession [])
      [PointerDown BOTTOM exampleTouch examplePoint,
       PointerMove BOTTOM exampleTouch examplePoint2, Render, ?d] = step ?ss ?d"
    by (simp add: run_def)
  have e2: "run (initialSession [])
      [PointerDown BOTTOM exampleTouch examplePoint,
       PointerMove BOTTOM exampleTouch examplePoint2, Render, ?d,
       PointerUp BOTTOM exampleTouch] = run ?ss [?d, PointerUp BOTTOM exampleTouch]"
    by (simp add: run_def)
  show ?thesis
    unfolding e1 e2 using h r1 r2 r3 by blast
qed

section \<open>The active zone and the mirror flag\<close>

text \<open>
  C9: in every state the session reaches from its initial state the active zone is TOP
  or BOTTOM; the toggle changes it to the other one, and a second toggle changes it
  back, in the live state and in the rendered one. The mirror flag of a zone is true
  exactly when the zone's tag differs from the active zone, so of the two zones
  exactly one is mirrored: the flags of TOP and BOTTOM always differ.
\<close>

theorem active_zone_mirror:
  "(activeZone (live (run (initialSession img) evs)) = TOP \<or>
    activeZone (live (run (initialSession img) evs)) = BOTTOM) \<and>
   (activeZone (captured (run (initialSession img) evs)) = TOP \<or>
    activeZone (captured (run (initialSession img) evs)) = BOTTOM) \<and>
   activeZone (live (step ss ToggleSide)) \<noteq> activeZone (live ss) \<and>
   activeZone (captured (step ss ToggleSide)) \<noteq> activeZone (captured ss) \<and>
   activeZone (live (step (step ss ToggleSide) ToggleSide)) = activeZone (live ss) \<and>
   activeZone (captured (step (step ss ToggleSide) ToggleSide)) = activeZone (captured ss) \<and>
   isMirror (activeZone st) z = (z \<noteq> activeZone st) \<and>
   isMirror (activeZone st) TOP \<noteq> isMirror (activeZone st) BOTTOM"
proof -
  have two: "a = TOP \<or> a = BOTTOM" for a
    by (cases a) simp_all
  have "activeZone (live (step ss ToggleSide)) \<noteq> activeZone (live ss)"
    and "activeZone (captured (step ss ToggleSide)) \<noteq> activeZone (captured ss)"
    and "activeZone (live (step (step ss ToggleSide) ToggleSide)) = activeZone (live ss)"
    and "activeZone (captured (step (step ss ToggleSide) ToggleSide)) = activeZone (captured ss)"
    using two [of "activeZone (live ss)"] two [of "activeZone (captured ss)"]
    by (auto simp add: step_ToggleSide onToggleSide_def)
  moreover have "isMirror (activeZone st) z = (z \<noteq> activeZone st)"
    by (auto simp add: isMirror_def)
  moreover have "isMirror (activeZone st) TOP \<noteq> isMirror (activeZone st) BOTTOM"
    using two [of "activeZone st"] by (auto simp add: isMirror_def)
  ultimately show ?thesis
    using two [of "activeZone (live (run (initialSession img) evs))"]
      two [of "activeZone (captured (run (initialSession img) evs))"]
    by blast
qed

theorem active_zone_mirror_witness:
  "activeZone (live (run (initialSession []) [ToggleSide])) = TOP \<and>
   activeZone (captured (run (initialSession []) [ToggleSide])) = TOP \<and>
   activeZone (live (step (initialSession []) ToggleSide)) \<noteq>
     activeZone (live (initialSession [])) \<and>
   isMirror (activeZone (initialState [])) TOP \<and>
   \<not> isMirror (activeZone (initialState [])) BOTTOM"
  using active_zone_mirror [of "[]" "[ToggleSide]" "initialSession []" "initialState []" TOP]
  by (simp add: run_def step_ToggleSide initialSession_def initialState_def onToggleSide_def
      isMirror_def)

section \<open>Arithmetic on finite numbers\<close>

lemma fin_times: "Fin a * Fin b = toDouble (a * b)"
  by (simp add: times_number_def)

lemma fin_minus: "Fin a - Fin b = toDouble (a - b)"
  by (simp add: minus_number_def)

lemma fin_divide: "b \<noteq> 0 \<Longrightarrow> Fin a / Fin b = toDouble (a / b)"
  by (simp add: divide_number_def)

lemma one_minus_fin: "1 - Fin b = toDouble (1 - b)"
  by (simp add: minus_number_def one_number_def)

subsection \<open>On the concrete values\<close>

lemma double_quarter: "toDouble (1 / 4) = Fin (1 / 4)"
  by code_simp

lemma times_half_400: "Fin (1 / 2) * Fin 400 = Fin 200"
  by code_simp

lemma times_half_300: "Fin (1 / 2) * Fin 300 = Fin 150"
  by code_simp

lemma times_three_quarters_400: "Fin (3 / 4) * Fin 400 = Fin 300"
  by code_simp

lemma times_three_quarters_300: "Fin (3 / 4) * Fin 300 = Fin 225"
  by code_simp

lemma times_quarter_300: "Fin (1 / 4) * Fin 300 = Fin 75"
  by code_simp

lemma one_minus_half: "1 - Fin (1 / 2) = Fin (1 / 2)"
  by code_simp

lemma one_minus_quarter: "1 - Fin (1 / 4) = Fin (3 / 4)"
  by code_simp

lemma divide_800_2: "Fin 800 / Fin 2 = Fin 400"
  by code_simp

lemma divide_600_2: "Fin 600 / Fin 2 = Fin 300"
  by code_simp

lemma tenth_is_double:
  "toDouble (1 / 10) = Fin (3602879701896397 / 36028797018963968)"
  by code_simp

lemma one_minus_tenth:
  "1 - Fin (3602879701896397 / 36028797018963968) =
     Fin (8106479329266893 / 9007199254740992)"
  by code_simp

lemma one_minus_nine_tenths:
  "1 - Fin (8106479329266893 / 9007199254740992) =
     Fin (900719925474099 / 9007199254740992)"
  by code_simp

lemma times_tenth_300: "Fin (3602879701896397 / 36028797018963968) * Fin 300 = Fin 30"
  by code_simp

lemma times_tenth_twice_300:
  "Fin (900719925474099 / 9007199254740992) * Fin 300 =
     Fin (4222124650659839 / 140737488355328)"
  by code_simp

section \<open>The coordinates of a rendered stroke\<close>

text \<open>
  C3, as the specification states it, ends: applying the mirror transform twice to a Y
  coordinate returns the original Y. In the arithmetic of the source it does not. The
  point \<open>examplePointTenth\<close> has the double nearest to 0.1 as its Y; reflected twice,
  \<open>1 - (1 - y)\<close>, the Y is the double below it that prints as 0.09999999999999998.
  On a surface of height 300 the unmirrored point is drawn at Y = 30, and the mirrored
  image of its reflection at the double that prints as 29.999999999999993, by
  the transform and by the renderer alike.
\<close>

theorem double_mirror_counterexample:
  "toDouble (1 / 10) = y examplePointTenth \<and>
   1 - (1 - y examplePointTenth) = Fin (900719925474099 / 9007199254740992) \<and>
   1 - (1 - y examplePointTenth) \<noteq> y examplePointTenth \<and>
   snd (spec_transform examplePointTenth (Fin 400) (Fin 300) False) = Fin 30 \<and>
   snd (spec_transform (examplePointTenth\<lparr>y := 1 - y examplePointTenth\<rparr>)
          (Fin 400) (Fin 300) True) = Fin (4222124650659839 / 140737488355328) \<and>
   path (drawStroke exampleContext (exampleDot\<lparr>points := [examplePointTenth]\<rparr>)
          (Fin 400) (Fin 300) False) =
     [MoveTo (Fin 200) (Fin 30), LineTo (Fin 200) (Fin 30)] \<and>
   path (drawStroke exampleContext
          (exampleDot\<lparr>points := [examplePointTenth\<lparr>y := 1 - y examplePointTenth\<rparr>]\<rparr>)
          (Fin 400) (Fin 300) True) =
     [MoveTo (Fin 200) (Fin (4222124650659839 / 140737488355328)),
      LineTo (Fin 200) (Fin (4222124650659839 / 140737488355328))]"
  by (simp add: examplePointTenth_def exampleDot_def spec_transform_def drawStroke_closed
      strokePath_def tenth_is_double one_minus_tenth one_minus_nine_tenths times_tenth_300
      times_tenth_twice_300 times_half_400)

text \<open>
  C3, amended: the path the renderer builds for a stroke with at least one point visits
  the pixel coordinates of the specification's transform, computed in the arithmetic of
  the source's numbers, for the first point and for every later point alike (a
  one-point stroke visits its point twice: the move and the line), and that path is the
  one the \<^verbatim>\<open>stroke()\<close> call paints. The transform sends a point \<open>p\<close> on a surface of size
  \<open>(W, H)\<close> to \<open>(x p * W, y p * H)\<close> without the mirror flag and to
  \<open>(x p * W, (1 - y p) * H)\<close> with it. Mirroring twice gives the original Y when the
  reflection \<open>1 - y\<close> of the double \<open>y\<close> is computed without rounding: then the mirrored
  image of the reflected point is the unmirrored image of the point.
\<close>

theorem drawStroke_transform:
  "points s \<noteq> [] \<Longrightarrow>
     map coords (path (drawStroke c s w h m)) =
       map (\<lambda>p. spec_transform p w h m)
         (if length (points s) = 1 then points s @ points s else points s) \<and>
     (\<exists>mode style lw cap join.
        last (raster (drawStroke c s w h m)) =
          Stroked mode style lw cap join (path (drawStroke c s w h m))) \<and>
     spec_transform p W H False = (x p * W, y p * H) \<and>
     spec_transform p W H True = (x p * W, (1 - y p) * H) \<and>
     (y p = Fin q \<and> toDouble q = Fin q \<and> 1 - y p = Fin (1 - q) \<longrightarrow>
        spec_transform (p\<lparr>y := 1 - y p\<rparr>) W H True = spec_transform p W H False)"
proof (cases "points s")
  case Nil
  assume "points s \<noteq> []"
  with Nil show ?thesis by simp
next
  case (Cons p0 ps)
  then have ne: "points s \<noteq> []" by simp
  have visits: "map coords (path (drawStroke c s w h m)) =
       map (\<lambda>p. spec_transform p w h m)
         (if length (points s) = 1 then points s @ points s else points s)"
    using Cons by (simp add: drawStroke_closed [OF ne] strokePath_def coords_def comp_def)
  have painted: "\<exists>mode style lw cap join.
        last (raster (drawStroke c s w h m)) =
          Stroked mode style lw cap join (path (drawStroke c s w h m))"
    using Cons by (simp add: drawStroke_closed [OF ne] strokeLayer_def)
  have twice: "y p = Fin q \<and> toDouble q = Fin q \<and> 1 - y p = Fin (1 - q) \<longrightarrow>
        spec_transform (p\<lparr>y := 1 - y p\<rparr>) W H True = spec_transform p W H False"
  proof
    assume a: "y p = Fin q \<and> toDouble q = Fin q \<and> 1 - y p = Fin (1 - q)"
    then have "1 - y p = Fin (1 - q)"
      by blast
    then have "1 - (1 - y p) = 1 - Fin (1 - q)"
      by (simp only:)
    also have "\<dots> = toDouble (1 - (1 - q))"
      by (rule one_minus_fin)
    also have "\<dots> = y p"
      using a by simp
    finally have "1 - (1 - y p) = y p" .
    then show "spec_transform (p\<lparr>y := 1 - y p\<rparr>) W H True = spec_transform p W H False"
      by (simp add: spec_transform_def)
  qed
  show ?thesis using visits painted twice by (simp add: spec_transform_def)
qed

theorem drawStroke_transform_witness:
  "points examplePen \<noteq> [] \<and>
   map coords (path (drawStroke exampleContext examplePen (Fin 400) (Fin 300) True)) =
     [(Fin 200, Fin 150), (Fin 300, Fin 225)] \<and>
   map coords (path (drawStroke exampleContext examplePen (Fin 400) (Fin 300) False)) =
     [(Fin 200, Fin 150), (Fin 300, Fin 75)] \<and>
   y examplePoint2 = Fin (1 / 4) \<and> toDouble (1 / 4) = Fin (1 / 4) \<and>
   1 - y examplePoint2 = Fin (1 - 1 / 4) \<and>
   spec_transform examplePoint2 (Fin 400) (Fin 300) True = (Fin 300, Fin 225) \<and>
   spec_transform (examplePoint2\<lparr>y := 1 - y examplePoint2\<rparr>) (Fin 400) (Fin 300) True =
     (Fin 300, Fin 75)"
proof -
  have h: "y examplePoint2 = Fin (1 / 4) \<and> toDouble (1 / 4) = Fin (1 / 4) \<and>
      1 - y examplePoint2 = Fin (1 - 1 / 4)"
    by (simp add: examplePoint2_def double_quarter one_minus_quarter)
  have ne: "points examplePen \<noteq> []"
    by (simp add: examplePen_def)
  note t = drawStroke_transform [OF ne, of exampleContext "Fin 400" "Fin 300" _ examplePoint2
      "Fin 400" "Fin 300" "1 / 4"]
  have a: "map coords (path (drawStroke exampleContext examplePen (Fin 400) (Fin 300) True)) =
     [(Fin 200, Fin 150), (Fin 300, Fin 225)]"
    using t [of True]
    by (simp add: examplePen_def examplePoint_def examplePoint2_def spec_transform_def
        times_half_400 times_half_300 times_three_quarters_400 times_three_quarters_300
        one_minus_half one_minus_quarter)
  have b: "map coords (path (drawStroke exampleContext examplePen (Fin 400) (Fin 300) False)) =
     [(Fin 200, Fin 150), (Fin 300, Fin 75)]"
    using t [of False]
    by (simp add: examplePen_def examplePoint_def examplePoint2_def spec_transform_def
        times_half_400 times_half_300 times_three_quarters_400 times_quarter_300)
  have c: "spec_transform examplePoint2 (Fin 400) (Fin 300) True = (Fin 300, Fin 225)"
    using t [of True]
    by (simp add: examplePoint2_def times_three_quarters_400 times_three_quarters_300
        one_minus_quarter)
  have "spec_transform (examplePoint2\<lparr>y := 1 - y examplePoint2\<rparr>) (Fin 400) (Fin 300) True =
      spec_transform examplePoint2 (Fin 400) (Fin 300) False"
    using t [of True] h by blast
  moreover have "spec_transform examplePoint2 (Fin 400) (Fin 300) False = (Fin 300, Fin 75)"
    using t [of False]
    by (simp add: examplePoint2_def times_three_quarters_400 times_quarter_300)
  ultimately have d: "spec_transform (examplePoint2\<lparr>y := 1 - y examplePoint2\<rparr>) (Fin 400)
      (Fin 300) True = (Fin 300, Fin 75)"
    by (simp only:)
  show ?thesis using ne h a b c d by blast
qed

section \<open>One point and no point\<close>

lemma paintAll_append:
  "paintAll (ops @ [op]) sf =
     (case paintAll ops sf of None \<Rightarrow> None | Some sf' \<Rightarrow> paintOn op sf')"
  by (induction ops arbitrary: sf) (simp_all split: option.splits)

lemma nearPath_dot:
  "nearPath r [MoveTo (Fin cx) (Fin cy), LineTo (Fin cx) (Fin cy)] Q =
     ((fst Q - of_rat cx)\<^sup>2 + (snd Q - of_rat cy)\<^sup>2 \<le> r\<^sup>2)"
  by (simp add: nearPath_def finitePosition_def nearSegment_def)

lemma dot_layer:
  assumes "points s = [p]" and "x p * w = Fin cx"
    and "(if m then (1 - y p) * h else y p * h) = Fin cy"
  shows "strokeLayer s w h m =
     [Stroked (if isEraser s = Some True then ''destination-out'' else ''source-over'')
        (if isEraser s = Some True then ''rgba(0,0,0,1)'' else color s)
        (width s) ''round'' ''round'' [MoveTo (Fin cx) (Fin cy), LineTo (Fin cx) (Fin cy)]]"
  using assms by (simp add: strokeLayer_def strokePath_def spec_transform_def)

text \<open>
  C4, as the specification states it, has every stroke with exactly one point leave a
  filled circular mark, not an empty canvas. An eraser stroke does not: drawn on a
  blank surface, the one-point stroke \<open>exampleEraser\<close> leaves the surface blank.
\<close>

theorem eraser_dot_counterexample:
  "points exampleEraser = [examplePoint] \<and>
   isEraser exampleEraser = Some True \<and>
   paintAll (raster exampleContext) blank = Some blank \<and>
   paintAll (raster (drawStroke exampleContext exampleEraser (Fin 400) (Fin 300) False)) blank =
     Some blank"
proof -
  have p: "points exampleEraser = [examplePoint]" and e: "isEraser exampleEraser = Some True"
    by (simp_all add: exampleEraser_def)
  have b: "paintAll (raster exampleContext) blank = Some blank"
    by (simp add: exampleContext_def)
  have l: "strokeLayer exampleEraser (Fin 400) (Fin 300) False =
      [Stroked ''destination-out'' ''rgba(0,0,0,1)'' (Fin 20) ''round'' ''round''
         [MoveTo (Fin 200) (Fin 150), LineTo (Fin 200) (Fin 150)]]"
    using dot_layer [OF p, of "Fin 400" 200 False "Fin 300" 150]
    by (simp add: exampleEraser_def examplePoint_def times_half_400 times_half_300)
  have "paintAll (raster (drawStroke exampleContext exampleEraser (Fin 400) (Fin 300) False))
      blank = Some (\<lambda>Q. if nearPath (of_rat 20 / 2)
        [MoveTo (Fin 200) (Fin 150), LineTo (Fin 200) (Fin 150)] Q then None else blank Q)"
    by (simp add: raster_drawStroke l paintAll_append b paintOn_def)
  also have "\<dots> = Some blank"
    by (simp add: blank_def fun_eq_iff)
  finally show ?thesis using p e b by simp
qed

text \<open>
  C4, amended: take a stroke with exactly one point, a positive width \<open>d\<close> and a finite
  pixel position \<open>(cx, cy)\<close>, drawn on a surface \<open>sf\<close>. A pen stroke paints the filled
  disc of diameter \<open>d\<close> around \<open>(cx, cy)\<close> in its colour and leaves the rest of the
  surface as it was, so the surface is not blank. An eraser stroke makes that disc
  transparent instead and leaves the rest as it was. For a stroke with no point, the
  renderer returns the context unchanged.
\<close>

theorem drawStroke_dot:
  "(points s = [p] \<and> width s = Fin d \<and> 0 < d \<and> x p * w = Fin cx \<and>
    (if m then (1 - y p) * h else y p * h) = Fin cy \<and>
    paintAll (raster c) blank = Some sf \<longrightarrow>
      paintAll (raster (drawStroke c s w h m)) blank =
        Some (\<lambda>Q. if inDisc cx cy d Q
                  then (if isEraser s = Some True then None else Some (color s))
                  else sf Q) \<and>
      (isEraser s \<noteq> Some True \<longrightarrow>
         paintAll (raster (drawStroke c s w h m)) blank \<noteq> Some blank)) \<and>
   (points s = [] \<longrightarrow> drawStroke c s w h m = c)"
proof (intro conjI impI)
  assume a: "points s = [p] \<and> width s = Fin d \<and> 0 < d \<and> x p * w = Fin cx \<and>
    (if m then (1 - y p) * h else y p * h) = Fin cy \<and>
    paintAll (raster c) blank = Some sf"
  then have l: "strokeLayer s w h m =
     [Stroked (if isEraser s = Some True then ''destination-out'' else ''source-over'')
        (if isEraser s = Some True then ''rgba(0,0,0,1)'' else color s)
        (Fin d) ''round'' ''round'' [MoveTo (Fin cx) (Fin cy), LineTo (Fin cx) (Fin cy)]]"
    using dot_layer [of s p w cx m h cy] by simp
  show disc: "paintAll (raster (drawStroke c s w h m)) blank =
        Some (\<lambda>Q. if inDisc cx cy d Q
                  then (if isEraser s = Some True then None else Some (color s))
                  else sf Q)"
    using a
    by (auto simp add: raster_drawStroke l paintAll_append paintOn_def nearPath_dot inDisc_def
        fun_eq_iff)
  {
    assume pen: "isEraser s \<noteq> Some True"
    have centre: "inDisc cx cy d (of_rat cx, of_rat cy)"
      by (simp add: inDisc_def)
    show "paintAll (raster (drawStroke c s w h m)) blank \<noteq> Some blank"
    proof
      assume "paintAll (raster (drawStroke c s w h m)) blank = Some blank"
      with disc have "(\<lambda>Q. if inDisc cx cy d Q
                  then (if isEraser s = Some True then None else Some (color s))
                  else sf Q) = blank"
        by simp
      then have "(if inDisc cx cy d (of_rat cx, of_rat cy)
                  then (if isEraser s = Some True then None else Some (color s))
                  else sf (of_rat cx, of_rat cy)) = blank (of_rat cx, of_rat cy)"
        by (rule fun_cong)
      with pen centre show False
        by (simp add: blank_def)
    qed
  }
next
  assume "points s = []"
  then show "drawStroke c s w h m = c"
    by (rule drawStroke_empty)
qed

theorem drawStroke_dot_witness:
  "points exampleDot = [examplePoint] \<and> width exampleDot = Fin 4 \<and> (0::rat) < 4 \<and>
   x examplePoint * Fin 400 = Fin 200 \<and> y examplePoint * Fin 300 = Fin 150 \<and>
   paintAll (raster exampleContext) blank = Some blank \<and>
   isEraser exampleDot \<noteq> Some True \<and>
   paintAll (raster (drawStroke exampleContext exampleDot (Fin 400) (Fin 300) False)) blank =
     Some (\<lambda>Q. if inDisc 200 150 4 Q then Some ''#000000'' else blank Q) \<and>
   paintAll (raster (drawStroke exampleContext exampleDot (Fin 400) (Fin 300) False)) blank
     \<noteq> Some blank \<and>
   points (exampleDot\<lparr>points := []\<rparr>) = [] \<and>
   drawStroke exampleContext (exampleDot\<lparr>points := []\<rparr>) (Fin 400) (Fin 300) False =
     exampleContext"
proof -
  have h: "points exampleDot = [examplePoint] \<and> width exampleDot = Fin 4 \<and> (0::rat) < 4 \<and>
      x examplePoint * Fin 400 = Fin 200 \<and>
      (if False then (1 - y examplePoint) * Fin 300 else y examplePoint * Fin 300) = Fin 150 \<and>
      paintAll (raster exampleContext) blank = Some blank"
    by (simp add: exampleDot_def examplePoint_def exampleContext_def times_half_400
        times_half_300)
  have e: "isEraser exampleDot \<noteq> Some True"
    by (simp add: exampleDot_def)
  have n: "points (exampleDot\<lparr>points := []\<rparr>) = []"
    by simp
  note t = drawStroke_dot [of exampleDot examplePoint 4 "Fin 400" 200 False "Fin 300" 150
      exampleContext blank]
  note t' = drawStroke_dot [of "exampleDot\<lparr>points := []\<rparr>" examplePoint 4 "Fin 400" 200 False
      "Fin 300" 150 exampleContext blank]
  from t h e have r0: "paintAll (raster (drawStroke exampleContext exampleDot (Fin 400) (Fin 300)
      False)) blank =
     Some (\<lambda>Q. if inDisc 200 150 4 Q
               then (if isEraser exampleDot = Some True then None else Some (color exampleDot))
               else blank Q)"
    and r2: "paintAll (raster (drawStroke exampleContext exampleDot (Fin 400) (Fin 300) False))
      blank \<noteq> Some blank"
    by blast+
  have f: "(\<lambda>Q. if inDisc 200 150 4 Q
               then (if isEraser exampleDot = Some True then None else Some (color exampleDot))
               else blank Q) =
      (\<lambda>Q. if inDisc 200 150 4 Q then Some ''#000000'' else blank Q)"
    by (simp add: exampleDot_def cong: if_cong)
  from r0 have r1: "paintAll (raster (drawStroke exampleContext exampleDot (Fin 400) (Fin 300)
      False)) blank = Some (\<lambda>Q. if inDisc 200 150 4 Q then Some ''#000000'' else blank Q)"
    unfolding f .
  from t' n have r3: "drawStroke exampleContext (exampleDot\<lparr>points := []\<rparr>) (Fin 400) (Fin 300)
      False = exampleContext"
    by blast
  from h have h': "y examplePoint * Fin 300 = Fin 150"
    by simp
  show ?thesis using h h' e n r1 r2 r3 by blast
qed

section \<open>The compositing mode after an eraser stroke\<close>

text \<open>
  C6: when the renderer draws an eraser stroke (one with \<open>isEraser\<close> true and at least one
  point), it paints the stroke in the mode \<^verbatim>\<open>destination-out\<close>, and on return the
  compositing mode of the context is \<^verbatim>\<open>source-over\<close>. A draw of any stroke that follows
  adds exactly the operations of that stroke, whose mode depends on that stroke alone.
\<close>

theorem drawStroke_resets_compositing:
  "isEraser s = Some True \<Longrightarrow> points s \<noteq> [] \<Longrightarrow>
     globalCompositeOperation (drawStroke c s w h m) = ''source-over'' \<and>
     raster (drawStroke c s w h m) =
       raster c @ [Stroked ''destination-out'' ''rgba(0,0,0,1)'' (width s) ''round'' ''round''
                     (strokePath s w h m)] \<and>
     raster (drawStroke (drawStroke c s w h m) s2 w2 h2 m2) =
       raster (drawStroke c s w h m) @ strokeLayer s2 w2 h2 m2"
  by (simp add: drawStroke_closed raster_drawStroke strokeLayer_def)

theorem drawStroke_resets_compositing_witness:
  "isEraser exampleEraser = Some True \<and> points exampleEraser \<noteq> [] \<and>
   globalCompositeOperation (drawStroke exampleContext exampleEraser (Fin 400) (Fin 300) False) =
     ''source-over'' \<and>
   raster (drawStroke (drawStroke exampleContext exampleEraser (Fin 400) (Fin 300) False)
             examplePen (Fin 400) (Fin 300) False) =
     [Stroked ''destination-out'' ''rgba(0,0,0,1)'' (Fin 20) ''round'' ''round''
        [MoveTo (Fin 200) (Fin 150), LineTo (Fin 200) (Fin 150)],
      Stroked ''source-over'' ''#000000'' (Fin 4) ''round'' ''round''
        [MoveTo (Fin 200) (Fin 150), LineTo (Fin 300) (Fin 75)]]"
  using drawStroke_resets_compositing
    [of exampleEraser exampleContext "Fin 400" "Fin 300" False examplePen "Fin 400" "Fin 300"
        False]
  by (simp add: exampleEraser_def examplePen_def examplePoint_def examplePoint2_def
      exampleContext_def strokeLayer_def strokePath_def spec_transform_def
      times_half_400 times_half_300 times_three_quarters_400 times_quarter_300)

section \<open>The colour of an eraser stroke\<close>

text \<open>
  C7: for an eraser stroke the renderer does not read the colour. Drawing the stroke
  with one colour or with another gives the same context: the same properties, the
  same path and the same raster operations. A render of a zone is the same for two
  stroke logs and in-progress strokes that differ only in the colours of eraser
  strokes.
\<close>

theorem eraser_ignores_color:
  "(isEraser s = Some True \<longrightarrow>
      drawStroke c (s\<lparr>color := k1\<rparr>) w h m = drawStroke c (s\<lparr>color := k2\<rparr>) w h m) \<and>
   (list_all2 sameButEraserColor ss ts \<and> rel_option sameButEraserColor cur cur' \<longrightarrow>
      render zt az hid ss cur dpr canvasRef = render zt az hid ts cur' dpr canvasRef)"
proof (intro conjI impI)
  assume "isEraser s = Some True"
  then show "drawStroke c (s\<lparr>color := k1\<rparr>) w h m = drawStroke c (s\<lparr>color := k2\<rparr>) w h m"
    by (simp add: drawStroke_eraser_color)
next
  assume rel: "list_all2 sameButEraserColor ss ts \<and> rel_option sameButEraserColor cur cur'"
  then have log: "\<And>w h m c. fold (\<lambda>s c. drawStroke c s w h m) ss c =
      fold (\<lambda>s c. drawStroke c s w h m) ts c"
    by (simp add: fold_sameButEraserColor)
  from rel have "rel_option sameButEraserColor cur cur'" by simp
  then have inprogress: "\<And>w h m c. (case cur of None \<Rightarrow> c | Some cs \<Rightarrow> drawStroke c cs w h m) =
      (case cur' of None \<Rightarrow> c | Some cs \<Rightarrow> drawStroke c cs w h m)"
    by (cases cur; cases cur') (simp_all add: sameButEraserColor_drawStroke)
  show "render zt az hid ss cur dpr canvasRef = render zt az hid ts cur' dpr canvasRef"
    unfolding render_def Let_def log inprogress ..
qed

theorem eraser_ignores_color_witness:
  "isEraser exampleEraser = Some True \<and>
   drawStroke exampleContext (exampleEraser\<lparr>color := ''#00ff00''\<rparr>) (Fin 400) (Fin 300) True =
     drawStroke exampleContext (exampleEraser\<lparr>color := ''#0000ff''\<rparr>) (Fin 400) (Fin 300)
       True \<and>
   list_all2 sameButEraserColor [examplePen, exampleEraser]
     [examplePen, exampleEraser\<lparr>color := ''#00ff00''\<rparr>] \<and>
   rel_option sameButEraserColor (Some exampleEraser)
     (Some (exampleEraser\<lparr>color := ''#0000ff''\<rparr>)) \<and>
   render TOP BOTTOM False [examplePen, exampleEraser] (Some exampleEraser) (Fin 2)
       (Some exampleCanvas) =
     render TOP BOTTOM False [examplePen, exampleEraser\<lparr>color := ''#00ff00''\<rparr>]
       (Some (exampleEraser\<lparr>color := ''#0000ff''\<rparr>)) (Fin 2) (Some exampleCanvas)"
proof -
  have e: "isEraser exampleEraser = Some True"
    by (simp add: exampleEraser_def)
  have l: "list_all2 sameButEraserColor [examplePen, exampleEraser]
     [examplePen, exampleEraser\<lparr>color := ''#00ff00''\<rparr>] \<and>
     rel_option sameButEraserColor (Some exampleEraser)
       (Some (exampleEraser\<lparr>color := ''#0000ff''\<rparr>))"
    by (simp add: sameButEraserColor_def exampleEraser_def)
  note t = eraser_ignores_color
    [of exampleEraser exampleContext "''#00ff00''" "Fin 400" "Fin 300" True "''#0000ff''"
        "[examplePen, exampleEraser]" "[examplePen, exampleEraser\<lparr>color := ''#00ff00''\<rparr>]"
        "Some exampleEraser" "Some (exampleEraser\<lparr>color := ''#0000ff''\<rparr>)"
        TOP BOTTOM False "Fin 2" "Some exampleCanvas"]
  from t e l show ?thesis by blast
qed

section \<open>The order of a zone render\<close>

text \<open>
  C5: when a zone shows its content, a render on a canvas with a context adds to the
  surface, after what was there: the clear of the rectangle
  \<open>(0, 0, canvas_width, canvas_height)\<close>, then the operations of the committed strokes
  in the order of the stroke log, first committed first, then the operations of the
  in-progress stroke if there is one, last. The sequence is a function of the stroke
  log, the in-progress stroke, the zone, the active zone, and the size and pixel ratio
  of the canvas.
\<close>

theorem render_order:
  "context2d canvas = Some ctx \<Longrightarrow> shouldShowContent az zt hid \<Longrightarrow>
     rasterOf (render zt az hid ss cur dpr (Some canvas)) =
       raster ctx @ [Cleared 0 0 (canvas_width canvas) (canvas_height canvas)] @
       concat (map (\<lambda>s. strokeLayer s (logical (canvas_width canvas) dpr)
                           (logical (canvas_height canvas) dpr) (isMirror az zt)) ss) @
       (case cur of
          None \<Rightarrow> []
        | Some cs \<Rightarrow> strokeLayer cs (logical (canvas_width canvas) dpr)
                       (logical (canvas_height canvas) dpr) (isMirror az zt))"
  by (cases cur) (simp_all add: render_shown_raster pending_def)

theorem render_order_witness:
  "context2d exampleCanvas = Some exampleContext \<and> shouldShowContent BOTTOM BOTTOM False \<and>
   rasterOf (render BOTTOM BOTTOM False [examplePen, exampleEraser]
               (Some (exampleEraser\<lparr>points := [examplePoint2]\<rparr>)) (Fin 2)
               (Some exampleCanvas)) =
     [Cleared 0 0 (Fin 800) (Fin 600),
      Stroked ''source-over'' ''#000000'' (Fin 4) ''round'' ''round''
        [MoveTo (Fin 200) (Fin 150), LineTo (Fin 300) (Fin 75)],
      Stroked ''destination-out'' ''rgba(0,0,0,1)'' (Fin 20) ''round'' ''round''
        [MoveTo (Fin 200) (Fin 150), LineTo (Fin 200) (Fin 150)],
      Stroked ''destination-out'' ''rgba(0,0,0,1)'' (Fin 20) ''round'' ''round''
        [MoveTo (Fin 300) (Fin 75), LineTo (Fin 300) (Fin 75)]]"
  using render_order
    [of exampleCanvas exampleContext BOTTOM BOTTOM False "[examplePen, exampleEraser]"
        "Some (exampleEraser\<lparr>points := [examplePoint2]\<rparr>)" "Fin 2"]
  by (simp add: exampleCanvas_def exampleContext_def examplePen_def exampleEraser_def
      examplePoint_def examplePoint2_def shouldShowContent_def isActiveWritingZone_def
      isMirror_def logical_def truthy_def strokeLayer_def strokePath_def spec_transform_def
      divide_800_2 divide_600_2 times_half_400 times_half_300 times_three_quarters_400
      times_quarter_300)

section \<open>The hidden writing zone\<close>

text \<open>
  C8: a zone shows its content unless it is the active zone and the hidden flag is set.
  When it does not, a render adds to the surface the clear of the rectangle
  \<open>(0, 0, canvas_width, canvas_height)\<close> and nothing else, whatever the stroke log and the
  in-progress stroke hold, and the zone has no background image element. With BOTTOM
  active and the hidden flag set, the render of BOTTOM adds that clear alone, while TOP
  is mirrored and its render adds the clear and then every stroke of the log (and the
  in-progress stroke) drawn with the mirror flag, that is with the Y of each point
  reflected.
\<close>

theorem render_hidden_blank:
  "shouldShowContent az zt hid = (\<not> (az = zt \<and> hid)) \<and>
   (context2d canvas = Some ctx \<and> \<not> shouldShowContent az zt hid \<longrightarrow>
      rasterOf (render zt az hid ss cur dpr (Some canvas)) =
        raster ctx @ [Cleared 0 0 (canvas_width canvas) (canvas_height canvas)] \<and>
      backgroundLayer zt az hid img = None) \<and>
   (context2d canvas = Some ctx \<and> activeZone st = BOTTOM \<and> hideActiveZone st \<longrightarrow>
      rasterOf (renderZone BOTTOM st dpr (Some canvas)) =
        raster ctx @ [Cleared 0 0 (canvas_width canvas) (canvas_height canvas)] \<and>
      isMirror (activeZone st) TOP \<and>
      rasterOf (renderZone TOP st dpr (Some canvas)) =
        raster ctx @ [Cleared 0 0 (canvas_width canvas) (canvas_height canvas)] @
        concat (map (\<lambda>s. strokeLayer s (logical (canvas_width canvas) dpr)
                            (logical (canvas_height canvas) dpr) True)
                  (strokes st @ pending (currentStroke st))))"
proof (intro conjI impI)
  show "shouldShowContent az zt hid = (\<not> (az = zt \<and> hid))"
    by (simp add: shouldShowContent_def isActiveWritingZone_def)
next
  assume "context2d canvas = Some ctx \<and> \<not> shouldShowContent az zt hid"
  then show "rasterOf (render zt az hid ss cur dpr (Some canvas)) =
        raster ctx @ [Cleared 0 0 (canvas_width canvas) (canvas_height canvas)]"
    by (simp add: render_hidden rasterOf_def clearRect_def)
next
  assume "context2d canvas = Some ctx \<and> \<not> shouldShowContent az zt hid"
  then show "backgroundLayer zt az hid img = None"
    by (simp add: backgroundLayer_def)
next
  assume a: "context2d canvas = Some ctx \<and> activeZone st = BOTTOM \<and> hideActiveZone st"
  then have "\<not> shouldShowContent (activeZone st) BOTTOM (hideActiveZone st)"
    by (simp add: shouldShowContent_def isActiveWritingZone_def)
  with a show "rasterOf (renderZone BOTTOM st dpr (Some canvas)) =
        raster ctx @ [Cleared 0 0 (canvas_width canvas) (canvas_height canvas)]"
    by (simp add: renderZone_def render_hidden rasterOf_def clearRect_def)
next
  assume "context2d canvas = Some ctx \<and> activeZone st = BOTTOM \<and> hideActiveZone st"
  then show "isMirror (activeZone st) TOP"
    by (simp add: isMirror_def)
next
  assume a: "context2d canvas = Some ctx \<and> activeZone st = BOTTOM \<and> hideActiveZone st"
  then have "shouldShowContent BOTTOM TOP (hideActiveZone st)"
    by (simp add: shouldShowContent_def isActiveWritingZone_def)
  with a show "rasterOf (renderZone TOP st dpr (Some canvas)) =
        raster ctx @ [Cleared 0 0 (canvas_width canvas) (canvas_height canvas)] @
        concat (map (\<lambda>s. strokeLayer s (logical (canvas_width canvas) dpr)
                            (logical (canvas_height canvas) dpr) True)
                  (strokes st @ pending (currentStroke st)))"
    using render_shown_raster
      [of canvas ctx BOTTOM TOP "hideActiveZone st" "strokes st" "currentStroke st" dpr]
    by (simp add: renderZone_def isMirror_def)
qed

theorem render_hidden_blank_witness:
  "context2d exampleCanvas = Some exampleContext \<and>
   \<not> shouldShowContent BOTTOM BOTTOM True \<and>
   activeZone ((initialState ''board.png'')\<lparr>strokes := [examplePen], hideActiveZone := True\<rparr>)
     = BOTTOM \<and>
   hideActiveZone ((initialState ''board.png'')\<lparr>strokes := [examplePen], hideActiveZone := True\<rparr>) \<and>
   rasterOf (render BOTTOM BOTTOM True [examplePen] (Some exampleEraser) (Fin 2)
               (Some exampleCanvas)) =
     [Cleared 0 0 (Fin 800) (Fin 600)] \<and>
   backgroundLayer BOTTOM BOTTOM True ''board.png'' = None \<and>
   rasterOf (renderZone BOTTOM
      ((initialState ''board.png'')\<lparr>strokes := [examplePen], hideActiveZone := True\<rparr>) (Fin 2)
      (Some exampleCanvas)) = [Cleared 0 0 (Fin 800) (Fin 600)] \<and>
   rasterOf (renderZone TOP
      ((initialState ''board.png'')\<lparr>strokes := [examplePen], hideActiveZone := True\<rparr>) (Fin 2)
      (Some exampleCanvas)) =
     [Cleared 0 0 (Fin 800) (Fin 600),
      Stroked ''source-over'' ''#000000'' (Fin 4) ''round'' ''round''
        [MoveTo (Fin 200) (Fin 150), LineTo (Fin 300) (Fin 225)]]"
  using render_hidden_blank
    [of BOTTOM BOTTOM True exampleCanvas exampleContext "[examplePen]" "Some exampleEraser"
        "Fin 2"
        "''board.png''"
        "(initialState ''board.png'')\<lparr>strokes := [examplePen], hideActiveZone := True\<rparr>"]
  by (simp add: exampleCanvas_def exampleContext_def examplePen_def
      examplePoint_def examplePoint2_def shouldShowContent_def isActiveWritingZone_def
      initialState_def pending_def logical_def truthy_def strokeLayer_def strokePath_def
      spec_transform_def divide_800_2 divide_600_2 times_half_400 times_half_300
      times_three_quarters_400 times_three_quarters_300 one_minus_half one_minus_quarter)

end
